theory Spec2Isabelle
  imports Main "HOL-Library.Word"
begin

unbundle bit_operations_syntax

section \<open>Byte buffers\<close>

text \<open>
  The configuration image is a Python \<open>bytes\<close>/\<open>bytearray\<close>: a sequence of
  integers in the range 0..255. Python integers are unbounded and are modelled as \<open>int\<close>.
\<close>

type_synonym byte = "8 word"

section \<open>Integrity layer: the XOR stream\<close>

definition CONFIG_FILE_XOR :: int where
  "CONFIG_FILE_XOR = 0x5A"

text \<open>
  \<^verbatim>\<open>
  def decrypt_encrypt(obj):
      dobj = bytearray(obj[0:2])
      for i in range(2, len(obj)):
          dobj.append((obj[i] ^ (CONFIG_FILE_XOR +i)) & 0xff)
      return dobj
  \<close>
\<close>

definition decrypt_encrypt :: "byte list \<Rightarrow> byte list" where
  "decrypt_encrypt obj =
     foldl (\<lambda>dobj i. dobj @ [word_of_int ((uint (obj ! i) XOR (CONFIG_FILE_XOR + int i)) AND 0xff)])
           (take 2 obj) [2..<length obj]"

section \<open>Python values, exceptions and process state\<close>

text \<open>
  A Python \<open>str\<close> is a sequence of Unicode code points; \<open>bytes\<close> is a sequence of
  bytes. The two types are distinct: in Python 3 a \<open>bytes\<close> object never compares equal
  to a \<open>str\<close>. Dictionary keys and field names are the ASCII identifiers of the settings
  tables and are kept as \<open>string\<close>. Floating-point values are not part of the model.
\<close>

type_synonym pystr = "nat list"

datatype pyval =
    PNone
  | PBool bool
  | PInt int
  | PStr pystr
  | PBytes "byte list"
  | PList "pyval list"
  | PDict "(string \<times> pyval) list"

definition str :: "string \<Rightarrow> pystr" where
  "str s = map of_char s"

datatype ExitCode =
    OK | RESTORE_SKIPPED | ARGUMENT_ERROR | FILE_NOT_FOUND | DATA_SIZE_MISMATCH | DATA_CRC_ERROR
  | UNSUPPORTED_VERSION | FILE_READ_ERROR | JSON_READ_ERROR | RESTORE_DATA_ERROR
  | DOWNLOAD_CONFIG_ERROR | UPLOAD_CONFIG_ERROR | INVALID_DATA | MODULE_NOT_FOUND
  | INTERNAL_ERROR | HTTP_CONNECTION_ERROR

fun exit_status :: "ExitCode \<Rightarrow> nat" where
  "exit_status OK = 0"
| "exit_status RESTORE_SKIPPED = 1"
| "exit_status ARGUMENT_ERROR = 2"
| "exit_status FILE_NOT_FOUND = 3"
| "exit_status DATA_SIZE_MISMATCH = 4"
| "exit_status DATA_CRC_ERROR = 5"
| "exit_status UNSUPPORTED_VERSION = 6"
| "exit_status FILE_READ_ERROR = 7"
| "exit_status JSON_READ_ERROR = 8"
| "exit_status RESTORE_DATA_ERROR = 9"
| "exit_status DOWNLOAD_CONFIG_ERROR = 10"
| "exit_status UPLOAD_CONFIG_ERROR = 11"
| "exit_status INVALID_DATA = 12"
| "exit_status MODULE_NOT_FOUND = 20"
| "exit_status INTERNAL_ERROR = 21"
| "exit_status HTTP_CONNECTION_ERROR = 22"

datatype LogType = INFO | WARNING | ERROR

datatype pyexc =
    TypeError | ValueError | IndexError | KeyError | SyntaxError | AttributeError | UnicodeEncodeError
  | UnboundLocalError | struct_error

text \<open>
  A call either returns, or leaves through \<open>sys.exit\<close> (the \<open>SystemExit\<close> exception
  carrying the exit status), or leaves through another exception.
\<close>

datatype 'a outcome = Return 'a | SystemExit ExitCode | Raise pyexc

text \<open>
  The process state the functions below change: the lines written to standard error by
  \<open>message\<close> (each kept as its message type and status, the text is formatting only) and
  the global \<open>EXIT_CODE\<close>.
\<close>

record pstate =
  stderr :: "(LogType option \<times> ExitCode option) list"
  EXIT_CODE :: ExitCode

definition initial_state :: pstate where
  "initial_state = \<lparr>stderr = [], EXIT_CODE = OK\<rparr>"

definition message :: "LogType option \<Rightarrow> ExitCode option \<Rightarrow> pstate \<Rightarrow> pstate" where
  "message type' status s = s\<lparr>stderr := stderr s @ [(type', status)]\<rparr>"

text \<open>
  \<^verbatim>\<open>
  def exit_(status=0, msg="end", type_=LogType.ERROR, src=None, doexit=True, line=None):
      global EXIT_CODE
      if src is not None:
          msg = '{} ({})'.format(src, msg)
      message(msg, type_=type_ if status != ExitCode.OK else LogType.INFO, status=status, line=line)
      EXIT_CODE = status
      if doexit:
          message("Premature exit - {} #{}".format(ExitCode.str(status), status), type_=None, status=None, line=None)
          sys.exit(EXIT_CODE)
  \<close>
  The parameters \<open>type_\<close> and \<open>doexit\<close> are explicit here; a call of the source that
  leaves them out passes the defaults \<open>ERROR\<close> and \<open>True\<close>. A trailing underscore of a
  Python name is written as a prime.
\<close>

definition exit' :: "ExitCode \<Rightarrow> LogType \<Rightarrow> bool \<Rightarrow> pstate \<Rightarrow> unit outcome \<times> pstate" where
  "exit' status type' doexit s =
     (let s1 = message (Some (if status \<noteq> OK then type' else INFO)) (Some status) s;
          s2 = s1\<lparr>EXIT_CODE := status\<rparr>
      in if doexit then (SystemExit status, message None None s2) else (Return (), s2))"

text \<open>
  The command-line namespace \<open>ARGS\<close>, read from inside the codec functions. Verbose and
  debug output is informational only and is left out (\<open>ARGS.verbose\<close> false, debug level 0).
  The record also carries three library functions, which depend on the version of Python and
  of its Unicode tables: the parsers \<open>int(s, 0)\<close> for a \<open>str\<close> and \<open>int(b)\<close> for a
  \<open>bytes\<close> object (\<open>None\<close>: the parser raises \<open>ValueError\<close>) and the predicate
  \<open>str.isprintable\<close> on one code point. The namespace \<open>DEFAULTS\<close> below has those of
  CPython 3.11.
\<close>

record args =
  ignorewarning :: bool
  filter' :: "string list option"
  jsonhidepw :: bool
  int_literal :: "pystr \<Rightarrow> int option"
  int_decimal :: "byte list \<Rightarrow> int option"
  isprintable :: "nat \<Rightarrow> bool"

section \<open>Struct formats\<close>

text \<open>
  The settings tables use the \<open>struct\<close> format strings below and no others:
  \<open>'<L' 'B' '<H' 'b' '<h' '<Q' 'i' '<l'\<close> (one integer, with the prefix \<open><\<close> or none),
  \<open>'3B'\<close> (a count before an integer code, no prefix) and \<open>'33s'\<close>, \<open>'699s'\<close>, ...
  (a byte string of fixed length). A format string is kept in parsed form.

  After the prefix \<open><\<close> the codes have their standard sizes. Without a prefix \<open>struct\<close>
  uses the byte order and the sizes of the host; the model fixes a little-endian host whose C
  \<open>long\<close> has eight bytes (Linux or macOS on a 64-bit processor), so that the codes \<open>l\<close>
  and \<open>L\<close> have four bytes after \<open><\<close> and eight without a prefix. All other codes have
  the same size either way, and the alignment of the host plays no part in a format of one
  code or of one repeated code.
\<close>

datatype byteorder = NoPrefix | LittleEndian

datatype icode = Fb | FB | Fh | FH | Fi | FI | Fl | FL | Fq | FQ

datatype structfmt =
    Scalar byteorder icode
  | Counted nat icode
  | Chars nat

fun icode_size :: "byteorder \<Rightarrow> icode \<Rightarrow> nat" where
  "icode_size ord Fb = 1" | "icode_size ord FB = 1"
| "icode_size ord Fh = 2" | "icode_size ord FH = 2"
| "icode_size ord Fi = 4" | "icode_size ord FI = 4"
| "icode_size LittleEndian Fl = 4" | "icode_size LittleEndian FL = 4"
| "icode_size NoPrefix Fl = 8" | "icode_size NoPrefix FL = 8"
| "icode_size ord Fq = 8" | "icode_size ord FQ = 8"

fun is_signed :: "icode \<Rightarrow> bool" where
  "is_signed Fb = True" | "is_signed FB = False"
| "is_signed Fh = True" | "is_signed FH = False"
| "is_signed Fi = True" | "is_signed FI = False"
| "is_signed Fl = True" | "is_signed FL = False"
| "is_signed Fq = True" | "is_signed FQ = False"

fun calcsize :: "structfmt \<Rightarrow> nat" where
  "calcsize (Scalar ord c) = icode_size ord c"
| "calcsize (Counted n c) = n * icode_size NoPrefix c"
| "calcsize (Chars n) = n"

text \<open>Little-endian integers: \<open>le_int\<close> reads the unsigned value of a byte sequence,
  \<open>le_bytes n v\<close> writes the \<open>n\<close> low bytes of \<open>v\<close>.\<close>

fun le_int :: "byte list \<Rightarrow> int" where
  "le_int [] = 0"
| "le_int (b # bs) = uint b + 256 * le_int bs"

fun le_bytes :: "nat \<Rightarrow> int \<Rightarrow> byte list" where
  "le_bytes 0 v = []"
| "le_bytes (Suc n) v = word_of_int v # le_bytes n (v div 256)"

definition decode_int :: "icode \<Rightarrow> byte list \<Rightarrow> int" where
  "decode_int c bs =
     (let u = le_int bs
      in if is_signed c \<and> 2 ^ (8 * length bs - 1) \<le> u then u - 2 ^ (8 * length bs) else u)"

definition in_range :: "byteorder \<Rightarrow> icode \<Rightarrow> int \<Rightarrow> bool" where
  "in_range ord c v =
     (if is_signed c then - (2 ^ (8 * icode_size ord c - 1)) \<le> v \<and> v < 2 ^ (8 * icode_size ord c - 1)
      else 0 \<le> v \<and> v < 2 ^ (8 * icode_size ord c))"

text \<open>
  \<open>struct.unpack_from(fmt, buffer, offset)\<close> for one integer; \<open>None\<close> stands for
  \<open>struct.error\<close> (the buffer is too short at that offset). Offsets of the tables are not
  negative.
\<close>

definition unpack_from_int :: "byteorder \<Rightarrow> icode \<Rightarrow> byte list \<Rightarrow> nat \<Rightarrow> int option" where
  "unpack_from_int ord c buf off =
     (if off + icode_size ord c \<le> length buf
      then Some (decode_int c (take (icode_size ord c) (drop off buf))) else None)"

text \<open>
  \<open>struct.pack_into(fmt, buffer, offset, v)\<close> writes into the buffer it is given, and the
  buffer is what is left of a call that raises: \<open>Packed b\<close> is the buffer after a call that
  returns, \<open>Pack_error b\<close> the buffer after a call that raises \<open>struct.error\<close>. A buffer
  too short at that offset is refused untouched. Otherwise the bytes of the target are first
  set to zero and the value is packed over them, so that a value the format refuses (an
  integer outside the range of the code, a value of another type) leaves the target zeroed.
\<close>

datatype packed = Packed "byte list" | Pack_error "byte list"

definition pack_into_int :: "byteorder \<Rightarrow> icode \<Rightarrow> byte list \<Rightarrow> nat \<Rightarrow> int \<Rightarrow> packed" where
  "pack_into_int ord c buf off v =
     (if off + icode_size ord c \<le> length buf then
        if in_range ord c v
        then Packed (take off buf @ le_bytes (icode_size ord c) v @ drop (off + icode_size ord c) buf)
        else Pack_error (take off buf @ replicate (icode_size ord c) 0 @ drop (off + icode_size ord c) buf)
      else Pack_error buf)"

text \<open>A counted integer format unpacks into as many values, in address order.\<close>

fun unpack_from_ints :: "byteorder \<Rightarrow> icode \<Rightarrow> nat \<Rightarrow> byte list \<Rightarrow> nat \<Rightarrow> int list option" where
  "unpack_from_ints ord c 0 buf off = (if off \<le> length buf then Some [] else None)"
| "unpack_from_ints ord c (Suc n) buf off =
     (case unpack_from_int ord c buf off of
        None \<Rightarrow> None
      | Some v \<Rightarrow> (case unpack_from_ints ord c n buf (off + icode_size ord c) of
                     None \<Rightarrow> None
                   | Some vs \<Rightarrow> Some (v # vs)))"

text \<open>The format \<open>'<n>s'\<close>: \<open>n\<close> bytes; packing cuts a longer value and pads a shorter one
  with NUL bytes, and refuses a value that is not a bytes object.\<close>

definition unpack_from_chars :: "nat \<Rightarrow> byte list \<Rightarrow> nat \<Rightarrow> byte list option" where
  "unpack_from_chars n buf off =
     (if off + n \<le> length buf then Some (take n (drop off buf)) else None)"

definition pack_into_chars :: "nat \<Rightarrow> byte list \<Rightarrow> nat \<Rightarrow> pyval \<Rightarrow> packed" where
  "pack_into_chars n buf off v =
     (if off + n \<le> length buf then
        (case v of
           PBytes bs \<Rightarrow> Packed (take off buf @ take n bs @ replicate (n - length bs) 0 @ drop (off + n) buf)
         | _ \<Rightarrow> Pack_error (take off buf @ replicate n 0 @ drop (off + n) buf))
      else Pack_error buf)"

section \<open>Field definitions\<close>

text \<open>
  A field definition of the source is a tuple
  \<open>(<platform>, <format>, <addrdef>, <datadef> [,<converter>])\<close> that \<open>get_fielddef\<close>
  takes apart on every access. The model keeps the parts \<open>get_fielddef\<close> returns:
  \<open>baseaddr\<close>, \<open>bits\<close>, \<open>bitshift\<close> and \<open>strindex\<close> from \<open><addrdef>\<close>
  (\<open>bits = 0\<close> and \<open>strindex = None\<close> when absent); \<open>arraydef\<close>, \<open>validate\<close> and
  \<open>group\<close> from \<open><datadef>\<close> (an absent or empty \<open>arraydef\<close> is \<open>[]\<close>); the read and
  the write converter. A validator or converter of the source is a string given to \<open>eval\<close>
  or a callable: here a function that returns or raises. The two password helpers are
  compared by identity in the source and have constructors of their own; \<open>ConvFalse\<close> is
  the write converter \<open>False\<close> of a read-only field. The Tasmota command templates are
  not used by the functions below and are left out.
\<close>

datatype conv =
    ConvNone
  | ConvFalse
  | Conv_passwordread
  | Conv_passwordwrite
  | ConvFun "pyval \<Rightarrow> pyval outcome"

datatype fielddef =
  FieldDef (platform': int) (format': format) (baseaddr: nat) (bits: nat) (bitshift: int)
           (strindex: "nat option") (arraydef: "nat list")
           (validate: "(pyval \<Rightarrow> bool outcome) option") (group: "string option")
           (readconverter: conv) (writeconverter: conv)
and format =
    Struct structfmt
  | Setting "(string \<times> fielddef) list"

definition HIDDEN_PASSWORD :: pystr where
  "HIDDEN_PASSWORD = str ''********''"

definition INTERNAL :: string where
  "INTERNAL = ''Internal''"

definition VIRTUAL :: string where
  "VIRTUAL = ''*''"

definition PLATFORMS :: "string list" where
  "PLATFORMS = [''ESP82xx'', ''ESP32'']"

definition Platform_ESP82 :: int where "Platform_ESP82 = 0x1"
definition Platform_ESP32 :: int where "Platform_ESP32 = 0x2"
definition Platform_ALL :: int where "Platform_ALL = 0xf"

text \<open>The index of \<open>'SET_MAX'\<close> in \<open>SETTINGSTEXTINDEX\<close>: the list has 76 names before it.\<close>

definition SET_MAX :: nat where
  "SET_MAX = 76"

subsection \<open>Python comparisons used below\<close>

text \<open>\<open>value == 0\<close>: true for the integer 0 and for \<open>False\<close>, false for every other
  value of the model. \<open>value == s\<close> for a \<open>str\<close> \<open>s\<close>: true for the same text only; a
  \<open>bytes\<close> object is never equal to a \<open>str\<close>.\<close>

fun py_eq_int :: "pyval \<Rightarrow> int \<Rightarrow> bool" where
  "py_eq_int (PInt i) k = (i = k)"
| "py_eq_int (PBool b) k = ((if b then 1 else 0) = k)"
| "py_eq_int _ k = False"

fun py_eq_str :: "pyval \<Rightarrow> pystr \<Rightarrow> bool" where
  "py_eq_str (PStr t) s = (t = s)"
| "py_eq_str _ s = False"

subsection \<open>Settings helpers\<close>

text \<open>
  \<^verbatim>\<open>
  def passwordread(value):
      return HIDDEN_PASSWORD if ARGS.jsonhidepw else value

  def passwordwrite(value):
      return None if value == HIDDEN_PASSWORD else value
  \<close>
\<close>

definition passwordread :: "args \<Rightarrow> pyval \<Rightarrow> pyval" where
  "passwordread ARGS v = (if jsonhidepw ARGS then PStr HIDDEN_PASSWORD else v)"

definition passwordwrite :: "pyval \<Rightarrow> pyval" where
  "passwordwrite v = (if py_eq_str v HIDDEN_PASSWORD then PNone else v)"

text \<open>
  \<^verbatim>\<open>
  def bitsread(value, pos=0, bits=1):
      if pos >= 0:
          value >>= pos
      else:
          value <<= abs(pos)
      if bits > 0:
          value &= (1<<bits)-1
      return value
  \<close>
\<close>

definition bitsread :: "int \<Rightarrow> int \<Rightarrow> nat \<Rightarrow> int" where
  "bitsread v pos nbits =
     (let v1 = (if 0 \<le> pos then drop_bit (nat pos) v else push_bit (nat \<bar>pos\<bar>) v)
      in if 0 < nbits then v1 AND (push_bit nbits 1 - 1) else v1)"

text \<open>
  \<^verbatim>\<open>
  def readwrite_converter(value, fielddef, read=True, raw=False):
      converter, readconverter, writeconverter = get_fielddef(fielddef, fields='converter, readconverter, writeconverter')
      # call password functions even if raw value should be processed
      if read and callable(readconverter) and passwordread == readconverter:
          raw = False
      if not read and callable(writeconverter) and passwordwrite == writeconverter:
          raw = False
      if not raw and converter is not None:
          conv = readconverter if read else writeconverter
          try:
              if isinstance(conv, str):
                  return eval(conv.replace('$', 'value'))
              elif callable(conv):
                  return conv(value)
          except Exception as err:
              exit_(ExitCode.INTERNAL_ERROR, '{}'.format(err), type_=LogType.WARNING, line=...)
      return value
  \<close>
  The handler catches \<open>Exception\<close>, which \<open>SystemExit\<close> is not; its \<open>exit_\<close> call
  leaves \<open>doexit\<close> at the default.
\<close>

fun is_passwordread :: "conv \<Rightarrow> bool" where
  "is_passwordread Conv_passwordread = True"
| "is_passwordread _ = False"

fun is_passwordwrite :: "conv \<Rightarrow> bool" where
  "is_passwordwrite Conv_passwordwrite = True"
| "is_passwordwrite _ = False"

definition readwrite_converter ::
  "args \<Rightarrow> pyval \<Rightarrow> fielddef \<Rightarrow> bool \<Rightarrow> bool \<Rightarrow> pstate \<Rightarrow> pyval outcome \<times> pstate" where
  "readwrite_converter ARGS v fielddef read raw s =
     (let raw1 = (if read \<and> is_passwordread (readconverter fielddef) then False else raw);
          raw2 = (if \<not> read \<and> is_passwordwrite (writeconverter fielddef) then False else raw1)
      in if \<not> raw2
         then (case (if read then readconverter fielddef else writeconverter fielddef) of
                 Conv_passwordread \<Rightarrow> (Return (passwordread ARGS v), s)
               | Conv_passwordwrite \<Rightarrow> (Return (passwordwrite v), s)
               | ConvFun f \<Rightarrow>
                   (case f v of
                      Return r \<Rightarrow> (Return r, s)
                    | SystemExit c \<Rightarrow> (SystemExit c, s)
                    | Raise e \<Rightarrow>
                        (case exit' INTERNAL_ERROR WARNING True s of
                           (Return _, s') \<Rightarrow> (Return v, s')
                         | (SystemExit c, s') \<Rightarrow> (SystemExit c, s')
                         | (Raise e', s') \<Rightarrow> (Raise e', s')))
               | _ \<Rightarrow> (Return v, s))
         else (Return v, s))"

text \<open>
  \<^verbatim>\<open>
  def validate_value(value, fielddef):
      validate = get_fielddef(fielddef, fields='validate')
      if value == 0:
          # can not complete all validate condition
          # some Tasmota values are not allowed to be 0 on input
          # even though these values are set to 0 on Tasmota initial.
          # so we can't validate 0 values
          return True
      valid = True
      try:
          if isinstance(validate, str): # evaluate strings
              valid = eval(validate.replace('$', 'value'))
          elif callable(validate):     # use as format function
              valid = validate(value)
      except:
          valid = False
      return valid
  \<close>
  The bare \<open>except\<close> catches every exception, \<open>SystemExit\<close> too.
\<close>

definition validate_value :: "pyval \<Rightarrow> fielddef \<Rightarrow> bool" where
  "validate_value v fielddef =
     (if py_eq_int v 0 then True
      else (case validate fielddef of
              None \<Rightarrow> True
            | Some f \<Rightarrow> (case f v of Return valid \<Rightarrow> valid | SystemExit _ \<Rightarrow> False | Raise _ \<Rightarrow> False)))"

subsection \<open>Format helpers\<close>

text \<open>
  \<open>get_formatcount\<close> returns the count prefix of a format string, 1 when there is none;
  \<open>get_formattype\<close> returns the format without the count and the size of one item in bits.
\<close>

fun get_formatcount :: "structfmt \<Rightarrow> nat" where
  "get_formatcount (Scalar _ _) = 1"
| "get_formatcount (Counted n _) = n"
| "get_formatcount (Chars n) = n"

fun get_formattype :: "structfmt \<Rightarrow> structfmt \<times> nat" where
  "get_formattype (Scalar ord c) = (Scalar ord c, icode_size ord c * 8)"
| "get_formattype (Counted n c) = (Scalar NoPrefix c, icode_size NoPrefix c * 8)"
| "get_formattype (Chars n) = (Chars 1, 8)"

text \<open>
  \<open>get_fieldminmax\<close>: the bounds of the table \<open>minmax\<close> by the last character of the format,
  the maximum multiplied by the count; for a string format \<open>(0, count)\<close>.
\<close>

fun minmax :: "icode \<Rightarrow> int \<times> int" where
  "minmax Fb = (- 0x80, 0x7f)"
| "minmax FB = (0, 0xff)"
| "minmax Fh = (- 0x8000, 0x7fff)"
| "minmax FH = (0, 0xffff)"
| "minmax Fi = (- 0x80000000, 0x7fffffff)"
| "minmax FI = (0, 0xffffffff)"
| "minmax Fl = (- 0x80000000, 0x7fffffff)"
| "minmax FL = (0, 0xffffffff)"
| "minmax Fq = (- 0x8000000000000000, 0x7fffffffffffffff)"
| "minmax FQ = (0, 0x7fffffffffffffff)"

fun get_fieldminmax :: "structfmt \<Rightarrow> int \<times> int" where
  "get_fieldminmax (Scalar ord c) = (fst (minmax c), snd (minmax c) * 1)"
| "get_fieldminmax (Counted n c) = (fst (minmax c), snd (minmax c) * int n)"
| "get_fieldminmax (Chars n) = (0, int n)"

subsection \<open>Sub-fields and field lengths\<close>

text \<open>
  \<open>get_subfielddef\<close> drops the first dimension of \<open>arraydef\<close> and keeps everything else.
  The source calls it on array fields only.
\<close>

fun get_subfielddef :: "fielddef \<Rightarrow> fielddef" where
  "get_subfielddef (FieldDef p fmt ba nb sh si ad v g rc wc) =
     FieldDef p fmt ba nb sh si (tl ad) v g rc wc"

text \<open>
  \<^verbatim>\<open>
  def get_fieldlength(fielddef):
      length = 0
      platform_, format_, addrdef, arraydef = get_fielddef(fielddef, fields='platform_, format_, addrdef, arraydef')
      # <arraydef> contains a integer list
      if isinstance(arraydef, list) and len(arraydef) > 0:
          # calc size recursive by sum of all elements
          for _ in range(0, arraydef[0]):
              subfielddef = get_subfielddef(fielddef)
              if len(arraydef) > 1:
                  length += get_fieldlength((platform_, format_, addrdef, subfielddef))
              # single array
              else:
                  length += get_fieldlength((platform_, format_, addrdef, None))
      elif isinstance(format_, dict):
          # -> iterate through format
          addr = None
          setting = format_
          for name in setting:
              baseaddr = get_fielddef(setting[name], fields='baseaddr')
              _len = get_fieldlength(setting[name])
              if addr != baseaddr:
                  addr = baseaddr
                  length += _len
      # a simple value
      elif isinstance(format_, str):
          length = struct.calcsize(format_)
      return length
  \<close>
  With more than one dimension left the first branch builds a tuple whose \<open><datadef>\<close> is
  a whole field definition; \<open>get_fielddef\<close> refuses it with \<open>SyntaxError\<close>. With one
  dimension the element is the field without \<open><datadef>\<close> and converter, and every turn
  of the loop adds the same length.
\<close>

function get_fieldlength :: "fielddef \<Rightarrow> nat outcome"
  and get_fieldlength_items :: "(string \<times> fielddef) list \<Rightarrow> nat option \<Rightarrow> nat \<Rightarrow> nat outcome"
where
  "get_fieldlength (FieldDef p fmt ba nb sh si ad v g rc wc) =
     (case ad of
        n # rest \<Rightarrow>
          if n = 0 then Return 0
          else if rest \<noteq> [] then Raise SyntaxError
          else (case get_fieldlength (FieldDef p fmt ba nb sh si [] None None ConvNone ConvNone) of
                  Return l \<Rightarrow> Return (n * l)
                | SystemExit c \<Rightarrow> SystemExit c
                | Raise e \<Rightarrow> Raise e)
      | [] \<Rightarrow>
          (case fmt of
             Setting items \<Rightarrow> get_fieldlength_items items None 0
           | Struct sf \<Rightarrow> Return (calcsize sf)))"
| "get_fieldlength_items [] addr len = Return len"
| "get_fieldlength_items ((name, fd) # items) addr len =
     (case get_fieldlength fd of
        Return l \<Rightarrow>
          if addr \<noteq> Some (baseaddr fd)
          then get_fieldlength_items items (Some (baseaddr fd)) (len + l)
          else get_fieldlength_items items addr len
      | SystemExit c \<Rightarrow> SystemExit c
      | Raise e \<Rightarrow> Raise e)"
  by pat_completeness auto
termination
  by (relation "inv_image (less_than <*lex*> less_than)
        (\<lambda>x. case x of
               Inl fd \<Rightarrow> (size fd, length (arraydef fd))
             | Inr (items, _, _) \<Rightarrow> (size_list (size_prod (\<lambda>_. 0) size) items, 0))")
     auto

subsection \<open>Text\<close>

text \<open>
  \<open>str.title()\<close> on the ASCII group names: a letter that follows a letter is made lower
  case, any other letter upper case; other characters stay.
\<close>

definition is_lower :: "char \<Rightarrow> bool" where
  "is_lower c = (97 \<le> (of_char c :: nat) \<and> (of_char c :: nat) \<le> 122)"

definition is_upper :: "char \<Rightarrow> bool" where
  "is_upper c = (65 \<le> (of_char c :: nat) \<and> (of_char c :: nat) \<le> 90)"

definition to_upper :: "char \<Rightarrow> char" where
  "to_upper c = (if is_lower c then char_of ((of_char c :: nat) - 32) else c)"

definition to_lower :: "char \<Rightarrow> char" where
  "to_lower c = (if is_upper c then char_of ((of_char c :: nat) + 32) else c)"

fun title_from :: "bool \<Rightarrow> string \<Rightarrow> string" where
  "title_from prev [] = []"
| "title_from prev (c # cs) =
     (if is_lower c then (if prev then c else to_upper c) # title_from True cs
      else if is_upper c then (if prev then to_lower c else c) # title_from True cs
      else c # title_from False cs)"

definition title :: "string \<Rightarrow> string" where
  "title s = title_from False s"

text \<open>
  \<^verbatim>\<open>
  def is_filtergroup(group):
      if ARGS.filter is not None:
          if group is None:
              return False
          if group == VIRTUAL:
              return True
          if (INTERNAL.title() not in (groupname.title() for groupname in ARGS.filter) and group.title() == INTERNAL.title()) \
              or group.title() not in (groupname.title() for groupname in ARGS.filter):
              return False
      return True
  \<close>
\<close>

definition is_filtergroup :: "args \<Rightarrow> string option \<Rightarrow> bool" where
  "is_filtergroup ARGS grp =
     (case filter' ARGS of
        None \<Rightarrow> True
      | Some flt \<Rightarrow>
          (case grp of
             None \<Rightarrow> False
           | Some g \<Rightarrow>
               if g = VIRTUAL then True
               else if (title INTERNAL \<notin> set (map title flt) \<and> title g = title INTERNAL)
                       \<or> title g \<notin> set (map title flt) then False
               else True))"

text \<open>
  UTF-8. \<open>encode\<close> is \<open>s.encode('utf8')\<close>: \<open>None\<close> stands for \<open>UnicodeEncodeError\<close>, which
  a surrogate code point raises. \<open>decode_ignore\<close> is \<open>str(b, 'utf8', errors='ignore')\<close>:
  every well-formed sequence gives its code point, every other byte is dropped.
\<close>

definition encode_cp :: "nat \<Rightarrow> byte list option" where
  "encode_cp c =
     (if c < 0x80 then Some [of_nat c]
      else if c < 0x800 then Some [of_nat (0xC0 + c div 64), of_nat (0x80 + c mod 64)]
      else if 0xD800 \<le> c \<and> c < 0xE000 then None
      else if c < 0x10000
        then Some [of_nat (0xE0 + c div 4096), of_nat (0x80 + c div 64 mod 64), of_nat (0x80 + c mod 64)]
      else if c < 0x110000
        then Some [of_nat (0xF0 + c div 262144), of_nat (0x80 + c div 4096 mod 64),
                   of_nat (0x80 + c div 64 mod 64), of_nat (0x80 + c mod 64)]
      else None)"

fun encode :: "pystr \<Rightarrow> byte list option" where
  "encode [] = Some []"
| "encode (c # cs) =
     (case encode_cp c of
        None \<Rightarrow> None
      | Some bs \<Rightarrow> (case encode cs of None \<Rightarrow> None | Some rest \<Rightarrow> Some (bs @ rest)))"

definition between :: "nat \<Rightarrow> byte \<Rightarrow> nat \<Rightarrow> bool" where
  "between lo b hi = (lo \<le> unat b \<and> unat b \<le> hi)"

definition cont :: "byte \<Rightarrow> nat" where
  "cont b = unat b - 0x80"

fun decode_ignore :: "byte list \<Rightarrow> pystr" where
  "decode_ignore [] = []"
| "decode_ignore (b0 # bs) =
     (if unat b0 < 0x80 then unat b0 # decode_ignore bs
      else if between 0xC2 b0 0xDF then
        (case bs of
           b1 # r1 \<Rightarrow>
             if between 0x80 b1 0xBF
             then ((unat b0 - 0xC0) * 64 + cont b1) # decode_ignore r1
             else decode_ignore bs
         | [] \<Rightarrow> [])
      else if between 0xE0 b0 0xEF then
        (case bs of
           b1 # b2 # r2 \<Rightarrow>
             if between (if unat b0 = 0xE0 then 0xA0 else 0x80) b1 (if unat b0 = 0xED then 0x9F else 0xBF)
                \<and> between 0x80 b2 0xBF
             then ((unat b0 - 0xE0) * 4096 + cont b1 * 64 + cont b2) # decode_ignore r2
             else decode_ignore bs
         | _ \<Rightarrow> decode_ignore bs)
      else if between 0xF0 b0 0xF4 then
        (case bs of
           b1 # b2 # b3 # r3 \<Rightarrow>
             if between (if unat b0 = 0xF0 then 0x90 else 0x80) b1 (if unat b0 = 0xF4 then 0x8F else 0xBF)
                \<and> between 0x80 b2 0xBF \<and> between 0x80 b3 0xBF
             then ((unat b0 - 0xF0) * 262144 + cont b1 * 4096 + cont b2 * 64 + cont b3) # decode_ignore r3
             else decode_ignore bs
         | _ \<Rightarrow> decode_ignore bs)
      else decode_ignore bs)"

text \<open>
  \<open>s.split('\\x00')\<close>, \<open>s.split('\\x00', maxsplit)\<close>, \<open>'\\0'.join(parts)\<close> and
  \<open>s.rstrip('\\x00')\<close> on code-point sequences.
\<close>

fun split_nul :: "pystr \<Rightarrow> pystr list" where
  "split_nul [] = [[]]"
| "split_nul (c # cs) =
     (if c = 0 then [] # split_nul cs
      else (case split_nul cs of p # ps \<Rightarrow> (c # p) # ps | [] \<Rightarrow> [[c]]))"

fun split_nul_max :: "nat \<Rightarrow> pystr \<Rightarrow> pystr list" where
  "split_nul_max 0 s = [s]"
| "split_nul_max (Suc k) [] = [[]]"
| "split_nul_max (Suc k) (c # cs) =
     (if c = 0 then [] # split_nul_max k cs
      else (case split_nul_max (Suc k) cs of p # ps \<Rightarrow> (c # p) # ps | [] \<Rightarrow> [[c]]))"

fun join_nul :: "pystr list \<Rightarrow> pystr" where
  "join_nul [] = []"
| "join_nul [p] = p"
| "join_nul (p # ps) = p @ [0] @ join_nul ps"

definition rstrip_nul :: "pystr \<Rightarrow> pystr" where
  "rstrip_nul s = rev (dropWhile (\<lambda>c. c = 0) (rev s))"

subsection \<open>Reading and writing one value\<close>

text \<open>
  \<^verbatim>\<open>
  def get_fieldvalue(fielddef, dobj, addr, idxoffset=0):
      format_, bits, bitshift, strindex = get_fielddef(fielddef, fields='format_, bits, bitshift, strindex')
      value_ = 0
      unpackedvalue = struct.unpack_from(format_, dobj, addr)
      _, bitsize = get_formattype(format_)
      if not format_[-1:].lower() in ['s', 'p']:
          for val in unpackedvalue:
              value_ <<= bitsize
              value_ = value_ + val
          value_ = bitsread(value_, bitshift, bits)
      else:
          value_ = ""
          # max length of this field
          maxlength = get_fieldlength(fielddef)
          # get unpacked binary value as stripped string
          str_ = str(unpackedvalue[0], STR_ENCODING, errors='ignore')
          # split into single or multiple list elements delimted by \0
          sarray = str_.split('\x00', SETTINGSTEXTINDEX.index('SET_MAX'))
          if isinstance(sarray, list):
              # strip trailing \0 bytes
              sarray = [element.rstrip('\x00') for element in sarray]
              if strindex is None:
                  # single string
                  str_ = sarray[0]
              else:
                  # indexed string
                  str_ = sarray[strindex+idxoffset]
          # remove unprintable char
          if maxlength:
              value_ = "".join(itertools.islice((c for c in str_ if c.isprintable()), maxlength))
      return value_
  \<close>
  The source calls it on fields whose format is a format string.
\<close>

definition get_fieldvalue_ints ::
  "fielddef \<Rightarrow> byteorder \<Rightarrow> icode \<Rightarrow> nat \<Rightarrow> nat \<Rightarrow> byte list \<Rightarrow> nat \<Rightarrow> pyval outcome" where
  "get_fieldvalue_ints fielddef ord c formatcnt bitsize dobj addr =
     (case unpack_from_ints ord c formatcnt dobj addr of
        None \<Rightarrow> Raise struct_error
      | Some unpackedvalue \<Rightarrow>
          Return (PInt (bitsread (foldl (\<lambda>value' val. push_bit bitsize value' + val) 0 unpackedvalue)
                                 (bitshift fielddef) (bits fielddef))))"

definition get_fieldvalue :: "args \<Rightarrow> fielddef \<Rightarrow> byte list \<Rightarrow> nat \<Rightarrow> nat \<Rightarrow> pyval outcome" where
  "get_fieldvalue ARGS fielddef dobj addr idxoffset =
     (case format' fielddef of
        Setting _ \<Rightarrow> Raise TypeError
      | Struct (Scalar ord c) \<Rightarrow>
          get_fieldvalue_ints fielddef ord c 1 (snd (get_formattype (Scalar ord c))) dobj addr
      | Struct (Counted n c) \<Rightarrow>
          get_fieldvalue_ints fielddef NoPrefix c n (snd (get_formattype (Counted n c))) dobj addr
      | Struct (Chars n) \<Rightarrow>
          (case unpack_from_chars n dobj addr of
             None \<Rightarrow> Raise struct_error
           | Some unpackedvalue \<Rightarrow>
               (case get_fieldlength fielddef of
                  SystemExit c \<Rightarrow> SystemExit c
                | Raise e \<Rightarrow> Raise e
                | Return maxlength \<Rightarrow>
                    (let sarray = map rstrip_nul (split_nul_max SET_MAX (decode_ignore unpackedvalue));
                         i = (case strindex fielddef of None \<Rightarrow> 0 | Some si \<Rightarrow> si + idxoffset)
                     in if i < length sarray
                        then Return (PStr (if maxlength \<noteq> 0
                                            then take maxlength (filter (isprintable ARGS) (sarray ! i))
                                            else []))
                        else Raise IndexError))))"

text \<open>
  \<^verbatim>\<open>
  def set_fieldvalue(fielddef, dobj, addr, value):
      format_ = get_fielddef(fielddef, fields='format_')
      formatcnt = get_formatcount(format_)
      singletype, bitsize = get_formattype(format_)
      if not format_[-1:].lower() in ['s', 'p']:
          addr += (bitsize // 8) * formatcnt
          for _ in range(0, formatcnt):
              addr -= (bitsize // 8)
              maxunsigned = ((2**bitsize) - 1)
              maxsigned = ((2**bitsize)>>1)-1
              val = value & maxunsigned
              if isinstance(value, int) and value < 0 and val > maxsigned:
                  val = ((maxunsigned+1)-val) * (-1)
              try:
                  struct.pack_into(singletype, dobj, addr, val)
              except struct.error as err:
                  exit_(ExitCode.RESTORE_DATA_ERROR,
                        "Single type {} [fielddef={}, addr=0x{:04x}, value={}] - skipped!".format(err, fielddef, addr, val),
                        type_=LogType.WARNING,
                        doexit=not ARGS.ignorewarning,
                        line=inspect.getlineno(inspect.currentframe()))
              value >>= bitsize
      else:
          try:
              struct.pack_into(format_, dobj, addr, value)
          except struct.error as err:
              exit_(ExitCode.RESTORE_DATA_ERROR,
                    "String type {} [fielddef={}, addr=0x{:04x}, value={} - skipped!".format(err, fielddef, addr, value),
                    type_=LogType.WARNING,
                    doexit=not ARGS.ignorewarning,
                    line=inspect.getlineno(inspect.currentframe()))
      return dobj
  \<close>
  \<open>set_fieldvalue_ints\<close> is the loop of the first branch, \<open>k\<close> turns before its end and
  \<open>addr\<close> the address reached so far; \<open>ord\<close> and \<open>c\<close> are the prefix and the code of
  \<open>singletype\<close>. \<open>dobj\<close> is a \<open>bytearray\<close> that \<open>struct.pack_into\<close> changes in
  place: after a call that raised, and a warning that is ignored, the loop goes on with the
  buffer that call has left. The operators \<open>&\<close> and \<open>>>=\<close> take an \<open>int\<close> (a \<open>bool\<close>
  is one) and raise \<open>TypeError\<close> on any other value, in the first turn of the loop.
\<close>

fun set_fieldvalue_ints ::
  "args \<Rightarrow> byteorder \<Rightarrow> icode \<Rightarrow> nat \<Rightarrow> byte list \<Rightarrow> nat \<Rightarrow> int \<Rightarrow> pstate
   \<Rightarrow> byte list outcome \<times> pstate" where
  "set_fieldvalue_ints ARGS ord c 0 dobj addr v s = (Return dobj, s)"
| "set_fieldvalue_ints ARGS ord c (Suc k) dobj addr v s =
     (let bitsize = icode_size ord c * 8;
          addr1 = addr - bitsize div 8;
          maxunsigned = 2 ^ bitsize - 1;
          maxsigned = drop_bit 1 ((2::int) ^ bitsize) - 1;
          val0 = v AND maxunsigned;
          val = (if v < 0 \<and> maxsigned < val0 then ((maxunsigned + 1) - val0) * (- 1) else val0)
      in case pack_into_int ord c dobj addr1 val of
           Packed dobj1 \<Rightarrow> set_fieldvalue_ints ARGS ord c k dobj1 addr1 (drop_bit bitsize v) s
         | Pack_error dobj1 \<Rightarrow>
             (case exit' RESTORE_DATA_ERROR WARNING (\<not> ignorewarning ARGS) s of
                (Return _, s1) \<Rightarrow> set_fieldvalue_ints ARGS ord c k dobj1 addr1 (drop_bit bitsize v) s1
              | (SystemExit e, s1) \<Rightarrow> (SystemExit e, s1)
              | (Raise e, s1) \<Rightarrow> (Raise e, s1)))"

text \<open>The integer a Python value is in arithmetic (a \<open>bool\<close> is an \<open>int\<close>), if it is one.\<close>

fun as_number :: "pyval \<Rightarrow> int option" where
  "as_number (PInt i) = Some i"
| "as_number (PBool b) = Some (if b then 1 else 0)"
| "as_number _ = None"

definition set_fieldvalue ::
  "args \<Rightarrow> fielddef \<Rightarrow> byte list \<Rightarrow> nat \<Rightarrow> pyval \<Rightarrow> pstate \<Rightarrow> byte list outcome \<times> pstate" where
  "set_fieldvalue ARGS fielddef dobj addr v s =
     (case format' fielddef of
        Setting _ \<Rightarrow> (Raise TypeError, s)
      | Struct (Chars n) \<Rightarrow>
          (case pack_into_chars n dobj addr v of
             Packed dobj1 \<Rightarrow> (Return dobj1, s)
           | Pack_error dobj1 \<Rightarrow>
               (case exit' RESTORE_DATA_ERROR WARNING (\<not> ignorewarning ARGS) s of
                  (Return _, s1) \<Rightarrow> (Return dobj1, s1)
                | (SystemExit e, s1) \<Rightarrow> (SystemExit e, s1)
                | (Raise e, s1) \<Rightarrow> (Raise e, s1)))
      | Struct (Scalar ord c) \<Rightarrow>
          (case as_number v of
             Some i \<Rightarrow>
               set_fieldvalue_ints ARGS ord c 1 dobj (addr + (snd (get_formattype (Scalar ord c)) div 8) * 1) i s
           | None \<Rightarrow> (Raise TypeError, s))
      | Struct (Counted n c) \<Rightarrow>
          (case as_number v of
             Some i \<Rightarrow>
               set_fieldvalue_ints ARGS NoPrefix c n dobj
                 (addr + (snd (get_formattype (Counted n c)) div 8) * n) i s
           | None \<Rightarrow> if n = 0 then (Return dobj, s) else (Raise TypeError, s)))"

subsection \<open>Reading a field\<close>

lemma size_get_subfielddef [simp]: "size (get_subfielddef fd) = size fd"
  by (cases fd) simp

lemma arraydef_get_subfielddef [simp]: "arraydef (get_subfielddef fd) = tl (arraydef fd)"
  by (cases fd) simp

lemma size_format_fielddef: "format' fd = Setting items \<Longrightarrow> size_list (size_prod (\<lambda>_. 0) size) items < size fd"
  by (cases fd) simp

text \<open>
  \<^verbatim>\<open>
  def get_field(dobj, platform_bits, fieldname, fielddef, raw=False, addroffset=0, ignoregroup=False):
      valuemapping = None
      # get field definition
      platform_, format_, baseaddr, strindex, arraydef, group = get_fielddef(fielddef, fields='platform_, format_, baseaddr, strindex, arraydef, group')
      # filter platform
      if (platform_ & platform_bits) == 0:
          return valuemapping
      # filter groups
      if not ignoregroup and not is_filtergroup(group):
          return valuemapping
      # <arraydef> contains a integer list
      if isinstance(arraydef, list) and len(arraydef) > 0:
          valuemapping = []
          offset = 0
          for i in range(0, arraydef[0]):
              subfielddef = get_subfielddef(fielddef)
              length = get_fieldlength(subfielddef)
              if length != 0:
                  if strindex is not None:
                      value = get_field(dobj, platform_bits, fieldname, subfielddef, raw=raw, addroffset=i)
                  else:
                      value = get_field(dobj, platform_bits, fieldname, subfielddef, raw=raw, addroffset=addroffset+offset)
                  valuemapping.append(value)
              offset += length
      # <format> contains a dict
      elif isinstance(format_, dict):
          mapping_value = {}
          # -> iterate through format
          for name in format_:
              value = None
              value = get_field(dobj, platform_bits, name, format_[name], raw=raw, addroffset=addroffset)
              if value is not None:
                  mapping_value[name] = value
          # copy complete returned mapping
          valuemapping = copy.deepcopy(mapping_value)
      # a simple value
      elif isinstance(format_, (str, bool, int, float)):
          if get_fieldlength(fielddef) != 0:
              if strindex is not None:
                  value = get_fieldvalue(fielddef, dobj, baseaddr, addroffset)
              else:
                  value = get_fieldvalue(fielddef, dobj, baseaddr+addroffset)
              valuemapping = readwrite_converter(value, fielddef, read=True, raw=raw)
      else:
          exit_(...)
      return valuemapping
  \<close>
  The field name is used for messages only and is not an argument of the model.
  \<open>get_field_array\<close> is the loop of the array branch at index \<open>i\<close>, \<open>get_field_items\<close>
  the loop over the entries of a nested setting; the recursive calls leave
  \<open>ignoregroup\<close> at its default \<open>False\<close>.
\<close>

function get_field ::
    "args \<Rightarrow> byte list \<Rightarrow> int \<Rightarrow> fielddef \<Rightarrow> bool \<Rightarrow> nat \<Rightarrow> bool \<Rightarrow> pstate \<Rightarrow> pyval outcome \<times> pstate"
  and get_field_array ::
    "args \<Rightarrow> byte list \<Rightarrow> int \<Rightarrow> fielddef \<Rightarrow> bool \<Rightarrow> nat \<Rightarrow> nat \<Rightarrow> nat \<Rightarrow> pyval list \<Rightarrow> pstate
     \<Rightarrow> pyval outcome \<times> pstate"
  and get_field_items ::
    "args \<Rightarrow> byte list \<Rightarrow> int \<Rightarrow> (string \<times> fielddef) list \<Rightarrow> bool \<Rightarrow> nat \<Rightarrow> (string \<times> pyval) list \<Rightarrow> pstate
     \<Rightarrow> pyval outcome \<times> pstate"
where
  "get_field ARGS dobj platform_bits fielddef raw addroffset ignoregroup s =
     (if platform' fielddef AND platform_bits = 0 then (Return PNone, s)
      else if \<not> ignoregroup \<and> \<not> is_filtergroup ARGS (group fielddef) then (Return PNone, s)
      else if arraydef fielddef \<noteq> [] then
        get_field_array ARGS dobj platform_bits fielddef raw addroffset 0 0 [] s
      else
        (case format' fielddef of
           Setting items \<Rightarrow> get_field_items ARGS dobj platform_bits items raw addroffset [] s
         | Struct sf \<Rightarrow>
             (case get_fieldlength fielddef of
                SystemExit c \<Rightarrow> (SystemExit c, s)
              | Raise e \<Rightarrow> (Raise e, s)
              | Return len \<Rightarrow>
                  if len \<noteq> 0 then
                    (case (if strindex fielddef \<noteq> None
                           then get_fieldvalue ARGS fielddef dobj (baseaddr fielddef) addroffset
                           else get_fieldvalue ARGS fielddef dobj (baseaddr fielddef + addroffset) 0) of
                       SystemExit c \<Rightarrow> (SystemExit c, s)
                     | Raise e \<Rightarrow> (Raise e, s)
                     | Return v \<Rightarrow> readwrite_converter ARGS v fielddef True raw s)
                  else (Return PNone, s))))"
| "get_field_array ARGS dobj platform_bits fielddef raw addroffset i offset valuemapping s =
     (case arraydef fielddef of
        [] \<Rightarrow> (Return (PList valuemapping), s)
      | n # _ \<Rightarrow>
          if i < n then
            (case get_fieldlength (get_subfielddef fielddef) of
               SystemExit c \<Rightarrow> (SystemExit c, s)
             | Raise e \<Rightarrow> (Raise e, s)
             | Return len \<Rightarrow>
                 if len \<noteq> 0 then
                   (case get_field ARGS dobj platform_bits (get_subfielddef fielddef) raw
                           (if strindex fielddef \<noteq> None then i else addroffset + offset) False s of
                      (SystemExit c, s1) \<Rightarrow> (SystemExit c, s1)
                    | (Raise e, s1) \<Rightarrow> (Raise e, s1)
                    | (Return v, s1) \<Rightarrow>
                        get_field_array ARGS dobj platform_bits fielddef raw addroffset (Suc i) (offset + len)
                          (valuemapping @ [v]) s1)
                 else get_field_array ARGS dobj platform_bits fielddef raw addroffset (Suc i) (offset + len)
                        valuemapping s)
          else (Return (PList valuemapping), s))"
| "get_field_items ARGS dobj platform_bits [] raw addroffset mapping_value s =
     (Return (PDict mapping_value), s)"
| "get_field_items ARGS dobj platform_bits ((name, fd) # items) raw addroffset mapping_value s =
     (case get_field ARGS dobj platform_bits fd raw addroffset False s of
        (SystemExit c, s1) \<Rightarrow> (SystemExit c, s1)
      | (Raise e, s1) \<Rightarrow> (Raise e, s1)
      | (Return v, s1) \<Rightarrow>
          get_field_items ARGS dobj platform_bits items raw addroffset
            (if v \<noteq> PNone then mapping_value @ [(name, v)] else mapping_value) s1)"
  by pat_completeness auto
termination
  by (relation "inv_image (less_than <*lex*> less_than <*lex*> less_than)
        (\<lambda>x. case x of
               Inl (ARGS, dobj, pb, fd, raw, ao, ig, s) \<Rightarrow>
                 (size fd, length (arraydef fd), Suc (case arraydef fd of [] \<Rightarrow> 0 | n # _ \<Rightarrow> n))
             | Inr (Inl (ARGS, dobj, pb, fd, raw, ao, i, off, vm, s)) \<Rightarrow>
                 (size fd, length (arraydef fd), (case arraydef fd of [] \<Rightarrow> 0 | n # _ \<Rightarrow> n) - i)
             | Inr (Inr (ARGS, dobj, pb, items, raw, ao, mv, s)) \<Rightarrow>
                 (size_list (size_prod (\<lambda>_. 0) size) items, 0, 0))")
     (auto simp: size_format_fielddef)

declare get_field.simps [simp del] get_field_array.simps [simp del]

subsection \<open>Writing a field\<close>

text \<open>
  Python built-ins on the values of a restore mapping. \<open>int(value)\<close>, and \<open>int(value, 0)\<close>
  for a \<open>str\<close>; \<open>len(value)\<close> (\<open>None\<close>: \<open>TypeError\<close>); \<open>value[i]\<close> for an index
  \<open>i < len(value)\<close> (an integer is never a key of a JSON object).
\<close>

fun py_int :: "args \<Rightarrow> pyval \<Rightarrow> int outcome" where
  "py_int ARGS (PInt i) = Return i"
| "py_int ARGS (PBool b) = Return (if b then 1 else 0)"
| "py_int ARGS (PStr t) = (case int_literal ARGS t of Some i \<Rightarrow> Return i | None \<Rightarrow> Raise ValueError)"
| "py_int ARGS (PBytes bs) = (case int_decimal ARGS bs of Some i \<Rightarrow> Return i | None \<Rightarrow> Raise ValueError)"
| "py_int ARGS _ = Raise TypeError"

fun py_len :: "pyval \<Rightarrow> nat option" where
  "py_len (PStr t) = Some (length t)"
| "py_len (PBytes bs) = Some (length bs)"
| "py_len (PList xs) = Some (length xs)"
| "py_len (PDict kvs) = Some (length kvs)"
| "py_len _ = None"

fun py_getitem :: "pyval \<Rightarrow> nat \<Rightarrow> pyval outcome" where
  "py_getitem (PList xs) i = (if i < length xs then Return (xs ! i) else Raise IndexError)"
| "py_getitem (PStr t) i = (if i < length t then Return (PStr [t ! i]) else Raise IndexError)"
| "py_getitem (PBytes bs) i = (if i < length bs then Return (PInt (uint (bs ! i))) else Raise IndexError)"
| "py_getitem (PDict kvs) i = Raise KeyError"
| "py_getitem _ i = Raise TypeError"

text \<open>
  The branch "a simple value" of \<open>set_field\<close> for an integer format (the formats
  \<open>b B h H i I l L q Q\<close> of the source; \<open>P\<close> does not occur in the tables):
  \<^verbatim>\<open>
          elif format_[-1:] in ['b', 'B', 'h', 'H', 'i', 'I', 'l', 'L', 'q', 'Q', 'P']:
              value = readwrite_converter(restoremapping, fielddef, read=False)
              if isinstance(value, str):
                  value = int(value, 0)
              else:
                  value = int(value)
              # bits
              if bits != 0:
                  bitvalue = value
                  value = struct.unpack_from(format_, dobj, baseaddr+addroffset)[0]
                  # validate restoremapping value
                  valid = validate_value(bitvalue, fielddef)
                  if not valid:
                      err_text = "valid bit range exceeding"
                      value = bitvalue
                  else:
                      mask = (1<<bits)-1
                      if bitvalue > mask:
                          min_ = 0
                          max_ = mask
                          _value = bitvalue
                          valid = False
                      else:
                          if bitshift >= 0:
                              bitvalue <<= bitshift
                              mask <<= bitshift
                          else:
                              bitvalue >>= abs(bitshift)
                              mask >>= abs(bitshift)
                          value &= (0xffffffff ^ mask)
                          value |= bitvalue
              # full size values
              else:
                  # validate restoremapping function
                  valid = validate_value(value, fielddef)
                  if not valid:
                      err_text = "valid range exceeding"
                  _value = value
  \<close>
  The result is the triple \<open>(value, valid, skip)\<close> the rest of the branch goes on with.
\<close>

definition set_field_integer ::
  "args \<Rightarrow> byte list \<Rightarrow> fielddef \<Rightarrow> byteorder \<Rightarrow> icode \<Rightarrow> nat \<Rightarrow> pyval \<Rightarrow> nat \<Rightarrow> pstate
   \<Rightarrow> (pyval \<times> bool \<times> bool) outcome \<times> pstate" where
  "set_field_integer ARGS dobj fielddef ord c formatcnt restoremapping addroffset s =
     (case readwrite_converter ARGS restoremapping fielddef False False s of
        (SystemExit e, s1) \<Rightarrow> (SystemExit e, s1)
      | (Raise e, s1) \<Rightarrow> (Raise e, s1)
      | (Return converted, s1) \<Rightarrow>
          (case py_int ARGS converted of
             SystemExit e \<Rightarrow> (SystemExit e, s1)
           | Raise e \<Rightarrow> (Raise e, s1)
           | Return v \<Rightarrow>
               if bits fielddef \<noteq> 0 then
                 (let bitvalue = v in
                  case unpack_from_ints ord c formatcnt dobj (baseaddr fielddef + addroffset) of
                    None \<Rightarrow> (Raise struct_error, s1)
                  | Some [] \<Rightarrow> (Raise IndexError, s1)
                  | Some (word # _) \<Rightarrow>
                      if \<not> validate_value (PInt bitvalue) fielddef then (Return (PInt bitvalue, False, False), s1)
                      else
                        (let mask = push_bit (bits fielddef) 1 - 1 in
                         if mask < bitvalue then (Return (PInt word, False, False), s1)
                         else
                           (let bitvalue1 = (if 0 \<le> bitshift fielddef
                                             then push_bit (nat (bitshift fielddef)) bitvalue
                                             else drop_bit (nat \<bar>bitshift fielddef\<bar>) bitvalue);
                                mask1 = (if 0 \<le> bitshift fielddef
                                         then push_bit (nat (bitshift fielddef)) mask
                                         else drop_bit (nat \<bar>bitshift fielddef\<bar>) mask)
                            in (Return (PInt ((word AND (0xffffffff XOR mask1)) OR bitvalue1), True, False), s1))))
               else (Return (PInt v, validate_value (PInt v) fielddef, False), s1)))"

text \<open>The word that the bit branch of \<open>set_field\<close> puts together from the old word and the
  new bits (the lines from \<open>mask = (1<<bits)-1\<close> to \<open>value |= bitvalue\<close>).\<close>

definition merge_bits :: "nat \<Rightarrow> int \<Rightarrow> int \<Rightarrow> int \<Rightarrow> int" where
  "merge_bits nb sh word bitvalue =
     (let mask = push_bit nb 1 - 1;
          bitvalue1 = (if 0 \<le> sh then push_bit (nat sh) bitvalue else drop_bit (nat \<bar>sh\<bar>) bitvalue);
          mask1 = (if 0 \<le> sh then push_bit (nat sh) mask else drop_bit (nat \<bar>sh\<bar>) mask)
      in (word AND (0xffffffff XOR mask1)) OR bitvalue1)"

text \<open>
  The same branch for a string format:
  \<^verbatim>\<open>
          elif format_[-1:].lower() in ['s', 'p']:
              value = readwrite_converter(restoremapping.encode(STR_ENCODING), fielddef, read=False)
              err_text = "string length exceeding"
              if value is not None:
                  max_ -= 1
                  valid = min_ <= len(value) <= max_
              else:
                  skip = True
                  valid = True
              # handle indexed strings
              if strindex is not None:
                  # unpack index str from source baseaddr into str_
                  unpackedvalue = struct.unpack_from(format_, dobj, baseaddr)
                  str_ = str(unpackedvalue[0], STR_ENCODING, errors='ignore')
                  # split into separate string values
                  sarray = str_.split('\x00')
                  if not isinstance(value, str):
                      value = str(value, STR_ENCODING, errors='ignore')
                  # remember possible value changes
                  prevvalue = sarray[strindex+addroffset]
                  curvalue = value
                  # change indexed string
                  sarray[strindex+addroffset] = value
                  # convert back to binary string stream
                  value = '\0'.join(sarray).encode(STR_ENCODING)
  \<close>
  where \<open>min_, max_ = get_fieldminmax(fielddef)\<close> at the head of the branch.
\<close>

definition set_field_string ::
  "args \<Rightarrow> byte list \<Rightarrow> fielddef \<Rightarrow> nat \<Rightarrow> pyval \<Rightarrow> nat \<Rightarrow> pstate
   \<Rightarrow> (pyval \<times> bool \<times> bool) outcome \<times> pstate" where
  "set_field_string ARGS dobj fielddef n restoremapping addroffset s =
     (case restoremapping of
        PStr t \<Rightarrow>
          (case encode t of
             None \<Rightarrow> (Raise UnicodeEncodeError, s)
           | Some encoded \<Rightarrow>
               (case readwrite_converter ARGS (PBytes encoded) fielddef False False s of
                  (SystemExit e, s1) \<Rightarrow> (SystemExit e, s1)
                | (Raise e, s1) \<Rightarrow> (Raise e, s1)
                | (Return v, s1) \<Rightarrow>
                    (case (if v \<noteq> PNone
                           then (case py_len v of
                                   None \<Rightarrow> Raise TypeError
                                 | Some l \<Rightarrow>
                                     Return (fst (get_fieldminmax (Chars n)) \<le> int l
                                             \<and> int l \<le> snd (get_fieldminmax (Chars n)) - 1, False))
                           else Return (True, True)) of
                       SystemExit e \<Rightarrow> (SystemExit e, s1)
                     | Raise e \<Rightarrow> (Raise e, s1)
                     | Return (valid, skip) \<Rightarrow>
                         (case strindex fielddef of
                            None \<Rightarrow> (Return (v, valid, skip), s1)
                          | Some si \<Rightarrow>
                              (case unpack_from_chars n dobj (baseaddr fielddef) of
                                 None \<Rightarrow> (Raise struct_error, s1)
                               | Some unpackedvalue \<Rightarrow>
                                   (let sarray = split_nul (decode_ignore unpackedvalue) in
                                    case (case v of
                                            PStr t1 \<Rightarrow> Some t1
                                          | PBytes bs \<Rightarrow> Some (decode_ignore bs)
                                          | _ \<Rightarrow> None) of
                                      None \<Rightarrow> (Raise TypeError, s1)
                                    | Some text \<Rightarrow>
                                        if si + addroffset < length sarray then
                                          (case encode (join_nul (sarray[si + addroffset := text])) of
                                             None \<Rightarrow> (Raise UnicodeEncodeError, s1)
                                           | Some joined \<Rightarrow> (Return (PBytes joined, valid, skip), s1))
                                        else (Raise IndexError, s1)))))))
      | _ \<Rightarrow> (Raise AttributeError, s))"

text \<open>
  The end of the branch:
  \<^verbatim>\<open>
          if value is None and not skip:
              # None is an invalid value
              valid = False
          if valid is None and not skip:
              ...
          if valid:
              if not skip:
                  if fieldname != 'cfg_crc' and fieldname != 'cfg_crc32' and fieldname != 'cfg_timestamp'  and fieldname != '_':
                      if strindex is not None:
                          # do not use address offset for indexed strings
                          dobj = set_fieldvalue(fielddef, dobj, baseaddr, value)
                      else:
                          prevvalue = get_fieldvalue(fielddef, dobj, baseaddr+addroffset)
                          dobj = set_fieldvalue(fielddef, dobj, baseaddr+addroffset, value)
                          curvalue = get_fieldvalue(fielddef, dobj, baseaddr+addroffset)
                      if prevvalue != curvalue and ARGS.verbose:
                          message("Value for '{}' changed from {} to {}".format(fieldname, prevvalue, curvalue), type_=LogType.INFO)
          else:
              sformat = "file '{sfile}' - {{'{sname}': {svalue}}} ({serror})"+errformat
              exit_(ExitCode.RESTORE_DATA_ERROR, sformat.format(...), type_=LogType.WARNING, doexit=not ARGS.ignorewarning)
  \<close>
  No branch sets \<open>valid\<close> to \<open>None\<close>, so the second test never holds. The two
  \<open>get_fieldvalue\<close> calls count for the exception they may raise. With an index and a
  format that is not a string, \<open>prevvalue\<close> has no value when it is compared.
\<close>

definition set_field_store ::
  "args \<Rightarrow> byte list \<Rightarrow> string \<Rightarrow> fielddef \<Rightarrow> nat \<Rightarrow> pyval \<Rightarrow> bool \<Rightarrow> bool \<Rightarrow> pstate
   \<Rightarrow> byte list outcome \<times> pstate" where
  "set_field_store ARGS dobj fieldname fielddef addroffset v valid0 skip s =
     (let valid = (if v = PNone \<and> \<not> skip then False else valid0) in
      if valid then
        if \<not> skip then
          if fieldname \<noteq> ''cfg_crc'' \<and> fieldname \<noteq> ''cfg_crc32'' \<and> fieldname \<noteq> ''cfg_timestamp''
             \<and> fieldname \<noteq> ''_'' then
            if strindex fielddef \<noteq> None then
              (case set_fieldvalue ARGS fielddef dobj (baseaddr fielddef) v s of
                 (SystemExit e, s1) \<Rightarrow> (SystemExit e, s1)
               | (Raise e, s1) \<Rightarrow> (Raise e, s1)
               | (Return dobj1, s1) \<Rightarrow>
                   (case format' fielddef of
                      Struct (Chars _) \<Rightarrow> (Return dobj1, s1)
                    | _ \<Rightarrow> (Raise UnboundLocalError, s1)))
            else
              (case get_fieldvalue ARGS fielddef dobj (baseaddr fielddef + addroffset) 0 of
                 SystemExit e \<Rightarrow> (SystemExit e, s)
               | Raise e \<Rightarrow> (Raise e, s)
               | Return prevvalue \<Rightarrow>
                   (case set_fieldvalue ARGS fielddef dobj (baseaddr fielddef + addroffset) v s of
                      (SystemExit e, s1) \<Rightarrow> (SystemExit e, s1)
                    | (Raise e, s1) \<Rightarrow> (Raise e, s1)
                    | (Return dobj1, s1) \<Rightarrow>
                        (case get_fieldvalue ARGS fielddef dobj1 (baseaddr fielddef + addroffset) 0 of
                           SystemExit e \<Rightarrow> (SystemExit e, s1)
                         | Raise e \<Rightarrow> (Raise e, s1)
                         | Return curvalue \<Rightarrow> (Return dobj1, s1))))
          else (Return dobj, s)
        else (Return dobj, s)
      else
        (case exit' RESTORE_DATA_ERROR WARNING (\<not> ignorewarning ARGS) s of
           (SystemExit e, s1) \<Rightarrow> (SystemExit e, s1)
         | (Raise e, s1) \<Rightarrow> (Raise e, s1)
         | (Return _, s1) \<Rightarrow> (Return dobj, s1)))"

definition set_field_simple ::
  "args \<Rightarrow> byte list \<Rightarrow> string \<Rightarrow> fielddef \<Rightarrow> structfmt \<Rightarrow> pyval \<Rightarrow> nat \<Rightarrow> pstate
   \<Rightarrow> byte list outcome \<times> pstate" where
  "set_field_simple ARGS dobj fieldname fielddef sf restoremapping addroffset s =
     (case (case sf of
              Scalar ord c \<Rightarrow> set_field_integer ARGS dobj fielddef ord c 1 restoremapping addroffset s
            | Counted n c \<Rightarrow> set_field_integer ARGS dobj fielddef NoPrefix c n restoremapping addroffset s
            | Chars n \<Rightarrow> set_field_string ARGS dobj fielddef n restoremapping addroffset s) of
        (SystemExit e, s1) \<Rightarrow> (SystemExit e, s1)
      | (Raise e, s1) \<Rightarrow> (Raise e, s1)
      | (Return (v, valid, skip), s1) \<Rightarrow>
          set_field_store ARGS dobj fieldname fielddef addroffset v valid skip s1)"

text \<open>
  \<^verbatim>\<open>
  def set_field(dobj, platform_bits, fieldname, fielddef, restoremapping, addroffset=0, filename=""):
      platform_, format_, baseaddr, bits, bitshift, strindex, arraydef, group, writeconverter = get_fielddef(fielddef, fields='platform_, format_, baseaddr, bits, bitshift, strindex, arraydef, group, writeconverter')
      # cast unicode
      fieldname = str(fieldname)
      # filter platform
      if (platform_ & platform_bits) == 0:
          return dobj
      # filter groups
      if not is_filtergroup(group):
          return dobj
      # do not write readonly values
      if writeconverter is False:
          return dobj
      # <arraydef> contains a list
      if isinstance(arraydef, list) and len(arraydef) > 0:
          offset = 0
          if len(restoremapping) > arraydef[0]:
              exit_(ExitCode.RESTORE_DATA_ERROR, "file '{sfile}', array '{sname}[{selem}]' exceeds max number of elements [{smax}]".format(...), type_=LogType.WARNING, doexit=not ARGS.ignorewarning, line=inspect.getlineno(inspect.currentframe()))
          for i in range(0, arraydef[0]):
              subfielddef = get_subfielddef(fielddef)
              length = get_fieldlength(subfielddef)
              if length != 0:
                  if i >= len(restoremapping): # restoremapping data list may be shorter than definition
                      break
                  subrestore = restoremapping[i]
                  if strindex is not None:
                      dobj = set_field(dobj, platform_bits, fieldname, subfielddef, subrestore, addroffset=i, filename=filename)
                  else:
                      dobj = set_field(dobj, platform_bits, fieldname, subfielddef, subrestore, addroffset=addroffset+offset, filename=filename)
              offset += length
      # <format> contains a dict
      elif isinstance(format_, dict):
          for name, rm_fielddef in format_.items():    # -> iterate through format
              restoremap = restoremapping.get(name, None)
              if restoremap is not None:
                  dobj = set_field(dobj, platform_bits, name, rm_fielddef, restoremap, addroffset=addroffset, filename=filename)
      # a simple value
      elif isinstance(format_, (str, bool, int, float)):
          ...
      return dobj
  \<close>
  The file name is used for messages only and is not an argument of the model.
  \<open>set_field_array\<close> is the loop of the array branch at index \<open>i\<close> with \<open>len_rm\<close> the
  length of the restore value, \<open>set_field_items\<close> the loop over the entries of a nested
  setting. Only a JSON object has \<open>get\<close>.
\<close>

function set_field ::
    "args \<Rightarrow> byte list \<Rightarrow> int \<Rightarrow> string \<Rightarrow> fielddef \<Rightarrow> pyval \<Rightarrow> nat \<Rightarrow> pstate \<Rightarrow> byte list outcome \<times> pstate"
  and set_field_array ::
    "args \<Rightarrow> byte list \<Rightarrow> int \<Rightarrow> string \<Rightarrow> fielddef \<Rightarrow> pyval \<Rightarrow> nat \<Rightarrow> nat \<Rightarrow> nat \<Rightarrow> nat \<Rightarrow> pstate
     \<Rightarrow> byte list outcome \<times> pstate"
  and set_field_items ::
    "args \<Rightarrow> byte list \<Rightarrow> int \<Rightarrow> (string \<times> fielddef) list \<Rightarrow> pyval \<Rightarrow> nat \<Rightarrow> pstate
     \<Rightarrow> byte list outcome \<times> pstate"
where
  "set_field ARGS dobj platform_bits fieldname fielddef restoremapping addroffset s =
     (if platform' fielddef AND platform_bits = 0 then (Return dobj, s)
      else if \<not> is_filtergroup ARGS (group fielddef) then (Return dobj, s)
      else if (case writeconverter fielddef of ConvFalse \<Rightarrow> True | _ \<Rightarrow> False) then (Return dobj, s)
      else
        (case arraydef fielddef of
           n # _ \<Rightarrow>
             (case py_len restoremapping of
                None \<Rightarrow> (Raise TypeError, s)
              | Some len_rm \<Rightarrow>
                  if n < len_rm then
                    (case exit' RESTORE_DATA_ERROR WARNING (\<not> ignorewarning ARGS) s of
                       (SystemExit e, s1) \<Rightarrow> (SystemExit e, s1)
                     | (Raise e, s1) \<Rightarrow> (Raise e, s1)
                     | (Return _, s1) \<Rightarrow>
                         set_field_array ARGS dobj platform_bits fieldname fielddef restoremapping addroffset
                           len_rm 0 0 s1)
                  else
                    set_field_array ARGS dobj platform_bits fieldname fielddef restoremapping addroffset
                      len_rm 0 0 s)
         | [] \<Rightarrow>
             (case format' fielddef of
                Setting items \<Rightarrow> set_field_items ARGS dobj platform_bits items restoremapping addroffset s
              | Struct sf \<Rightarrow> set_field_simple ARGS dobj fieldname fielddef sf restoremapping addroffset s)))"
| "set_field_array ARGS dobj platform_bits fieldname fielddef restoremapping addroffset len_rm i offset s =
     (case arraydef fielddef of
        [] \<Rightarrow> (Return dobj, s)
      | n # _ \<Rightarrow>
          if i < n then
            (case get_fieldlength (get_subfielddef fielddef) of
               SystemExit e \<Rightarrow> (SystemExit e, s)
             | Raise e \<Rightarrow> (Raise e, s)
             | Return len \<Rightarrow>
                 if len \<noteq> 0 then
                   if len_rm \<le> i then (Return dobj, s)
                   else
                     (case py_getitem restoremapping i of
                        SystemExit e \<Rightarrow> (SystemExit e, s)
                      | Raise e \<Rightarrow> (Raise e, s)
                      | Return subrestore \<Rightarrow>
                          (case set_field ARGS dobj platform_bits fieldname (get_subfielddef fielddef) subrestore
                                  (if strindex fielddef \<noteq> None then i else addroffset + offset) s of
                             (SystemExit e, s1) \<Rightarrow> (SystemExit e, s1)
                           | (Raise e, s1) \<Rightarrow> (Raise e, s1)
                           | (Return dobj1, s1) \<Rightarrow>
                               set_field_array ARGS dobj1 platform_bits fieldname fielddef restoremapping
                                 addroffset len_rm (Suc i) (offset + len) s1))
                 else
                   set_field_array ARGS dobj platform_bits fieldname fielddef restoremapping addroffset
                     len_rm (Suc i) (offset + len) s)
          else (Return dobj, s))"
| "set_field_items ARGS dobj platform_bits [] restoremapping addroffset s = (Return dobj, s)"
| "set_field_items ARGS dobj platform_bits ((name, rm_fielddef) # items) restoremapping addroffset s =
     (case restoremapping of
        PDict kvs \<Rightarrow>
          (case map_of kvs name of
             None \<Rightarrow> set_field_items ARGS dobj platform_bits items restoremapping addroffset s
           | Some restoremap \<Rightarrow>
               if restoremap \<noteq> PNone then
                 (case set_field ARGS dobj platform_bits name rm_fielddef restoremap addroffset s of
                    (SystemExit e, s1) \<Rightarrow> (SystemExit e, s1)
                  | (Raise e, s1) \<Rightarrow> (Raise e, s1)
                  | (Return dobj1, s1) \<Rightarrow>
                      set_field_items ARGS dobj1 platform_bits items restoremapping addroffset s1)
               else set_field_items ARGS dobj platform_bits items restoremapping addroffset s)
      | _ \<Rightarrow> (Raise AttributeError, s))"
  by pat_completeness auto
termination
  by (relation "inv_image (less_than <*lex*> less_than <*lex*> less_than)
        (\<lambda>x. case x of
               Inl (ARGS, dobj, pb, nm, fd, rm, ao, s) \<Rightarrow>
                 (size fd, length (arraydef fd), Suc (case arraydef fd of [] \<Rightarrow> 0 | n # _ \<Rightarrow> n))
             | Inr (Inl (ARGS, dobj, pb, nm, fd, rm, ao, lrm, i, off, s)) \<Rightarrow>
                 (size fd, length (arraydef fd), (case arraydef fd of [] \<Rightarrow> 0 | n # _ \<Rightarrow> n) - i)
             | Inr (Inr (ARGS, dobj, pb, items, rm, ao, s)) \<Rightarrow>
                 (size_list (size_prod (\<lambda>_. 0) size) items, 0, 0))")
     (auto simp: size_format_fielddef)

declare set_field.simps [simp del] set_field_array.simps [simp del]

subsection \<open>Restoring the elements of a list, one after the other\<close>


section \<open>Schema registry\<close>

text \<open>
  An entry of \<open>SETTINGS\<close> is a tuple \<open>(version, size, setting)\<close>; a setting is a dictionary
  from field names to field definitions, looked up with \<open>get(name, None)\<close>.
\<close>

type_synonym setting = "(string \<times> fielddef) list"

type_synonym cfg = "int \<times> nat \<times> setting"

text \<open>
  \<^verbatim>\<open>
  def get_templatesizes():
      sizes = []
      for cfg in SETTINGS:
          sizes.append(cfg[1])
      # return unique sizes only (remove duplicates)
      return list(set(sizes))
  \<close>
  The callers only test membership in the result.
\<close>

definition get_templatesizes :: "cfg list \<Rightarrow> nat list" where
  "get_templatesizes settings = remdups (map (\<lambda>cfg. fst (snd cfg)) settings)"

text \<open>
  \<open>sorted(SETTINGS, key=lambda s: s[0], reverse=True)\<close>: Python's sort is stable, also
  with \<open>reverse=True\<close> (entries with equal keys keep their order).
\<close>

definition sorted_reverse :: "cfg list \<Rightarrow> cfg list" where
  "sorted_reverse settings = sort_key (\<lambda>cfg. - fst cfg) settings"

text \<open>\<open>hex(v)\<close> and \<open>"0x{:0<w>x}".format(v)\<close>, the read converters of the header fields.\<close>

definition hex_digit :: "nat \<Rightarrow> nat" where
  "hex_digit d = (if d < 10 then 48 + d else 87 + d)"

fun hex_digits :: "nat \<Rightarrow> pystr" where
  "hex_digits n = (if n < 16 then [hex_digit n] else hex_digits (n div 16) @ [hex_digit (n mod 16)])"

fun py_hex :: "pyval \<Rightarrow> pyval outcome" where
  "py_hex (PInt i) = Return (PStr ((if i < 0 then str ''-0x'' else str ''0x'') @ hex_digits (nat \<bar>i\<bar>)))"
| "py_hex (PBool b) = Return (PStr (str (if b then ''0x1'' else ''0x0'')))"
| "py_hex _ = Raise TypeError"

definition format_0x :: "nat \<Rightarrow> pyval \<Rightarrow> pyval outcome" where
  "format_0x w v =
     (case (case v of PInt i \<Rightarrow> Some i | PBool b \<Rightarrow> Some (if b then 1 else 0) | _ \<Rightarrow> None) of
        None \<Rightarrow> Raise ValueError
      | Some i \<Rightarrow>
          (let sign = (if i < 0 then str ''-'' else []); digits = hex_digits (nat \<bar>i\<bar>)
           in Return (PStr (str ''0x'' @ sign @ replicate (w - length sign - length digits) 48 @ digits))))"

text \<open>
  The header fields of the settings tables, which \<open>get_config_info\<close> and \<open>bin2mapping\<close>
  look up by name:
  \<^verbatim>\<open>
  'version':        (Platform.ALL, '<L', 0x008, (None, None, ('System', None)), ('hex($)', False) ),
  'cfg_size':       (Platform.ALL, '<H', 0x002, (None, None, ('System', None)), (None, False)),
  'cfg_crc':        (Platform.ALL, '<H', 0x00E, (None, None, ('System', None)), '"0x{:04x}".format($)'),
  'cfg_timestamp':  (Platform.ALL, '<L', 0xFF8, (None, None, ('System', None)) ),
  'cfg_crc32':      (Platform.ALL, '<L', 0xFFC, (None, None, ('System', None)), '"0x{:08x}".format($)' ),
  'config_version': (Platform.ALL, 'B',  0xF36, (None, None, (INTERNAL, None)), (None, False) ),
  \<close>
\<close>

definition version_fielddef :: fielddef where
  "version_fielddef =
     FieldDef Platform_ALL (Struct (Scalar LittleEndian FL)) 0x008 0 0 None [] None (Some ''System'')
       (ConvFun py_hex) ConvFalse"

definition cfg_size_fielddef :: fielddef where
  "cfg_size_fielddef =
     FieldDef Platform_ALL (Struct (Scalar LittleEndian FH)) 0x002 0 0 None [] None (Some ''System'')
       ConvNone ConvFalse"

definition cfg_crc_fielddef :: fielddef where
  "cfg_crc_fielddef =
     FieldDef Platform_ALL (Struct (Scalar LittleEndian FH)) 0x00E 0 0 None [] None (Some ''System'')
       (ConvFun (format_0x 4)) ConvNone"

definition cfg_timestamp_fielddef :: fielddef where
  "cfg_timestamp_fielddef =
     FieldDef Platform_ALL (Struct (Scalar LittleEndian FL)) 0xFF8 0 0 None [] None (Some ''System'')
       ConvNone ConvNone"

definition cfg_crc32_fielddef :: fielddef where
  "cfg_crc32_fielddef =
     FieldDef Platform_ALL (Struct (Scalar LittleEndian FL)) 0xFFC 0 0 None [] None (Some ''System'')
       (ConvFun (format_0x 8)) ConvNone"

definition config_version_fielddef :: fielddef where
  "config_version_fielddef =
     FieldDef Platform_ALL (Struct (Scalar NoPrefix FB)) 0xF36 0 0 None [] None (Some INTERNAL)
       ConvNone ConvFalse"

text \<open>
  \<^verbatim>\<open>
  def get_config_info(decode_cfg):
      version = 0x0
      size = setting = None
      version = get_field(decode_cfg, Platform.ALL, 'version', SETTING_6_2_1['version'], raw=True, ignoregroup=True)
      template_version = version

      # identify platform (config_version)
      config_version = PLATFORMS.index("ESP82xx")  # default legacy
      for cfg in sorted(SETTINGS, key=lambda s: s[0], reverse=True):
          if version >= cfg[0]:
              fielddef = cfg[2].get('config_version', None)
              if fielddef is not None:
                  config_version = get_field(decode_cfg, Platform.ALL, 'config_version', fielddef, raw=True, ignoregroup=True)
                  if config_version >= len(PLATFORMS):
                      exit_(ExitCode.INVALID_DATA, "Invalid data in config (config_version is {}, valid range [0,{}])".format(config_version, len(PLATFORMS)-1), type_=LogType.WARNING, line=inspect.getlineno(inspect.currentframe()))
                      config_version = PLATFORMS.index("ESP82xx")
              break
      # search setting definition for platform top-down
      for cfg in sorted(SETTINGS, key=lambda s: s[0], reverse=True):
          if version >= cfg[0]:
              template_version = cfg[0]
              size = cfg[1]
              setting = cfg[2]
              break

      if setting is None:
          exit_(ExitCode.UNSUPPORTED_VERSION, "Tasmota configuration version {} not supported".format(version), line=inspect.getlineno(inspect.currentframe()))

      return {
          'platform': config_version,
          'version': version,
          'template_version': template_version,
          'template_size': size,
          'template': setting
          }
  \<close>
  Each loop stops at the first entry of the sorted list whose version is not above
  \<open>version\<close>. Both \<open>exit_\<close> calls leave \<open>doexit\<close> at its default. The registry is an
  argument of the model, written \<open>settings\<close>. A comparison \<open>>=\<close> of a value that is not a number raises
  \<open>TypeError\<close>. \<open>exit_\<close> with \<open>doexit\<close> true does not return, so the branches for
  its return are never taken.
\<close>

record config_info =
  platform :: int
  version :: int
  template_version :: int
  template_size :: nat
  template :: setting

definition identify_platform ::
  "args \<Rightarrow> cfg list \<Rightarrow> byte list \<Rightarrow> int \<Rightarrow> pstate \<Rightarrow> int outcome \<times> pstate" where
  "identify_platform ARGS settings decode_cfg ver s =
     (case find (\<lambda>cfg. fst cfg \<le> ver) (sorted_reverse settings) of
        None \<Rightarrow> (Return 0, s)
      | Some cfg \<Rightarrow>
          (case map_of (snd (snd cfg)) ''config_version'' of
             None \<Rightarrow> (Return 0, s)
           | Some fielddef \<Rightarrow>
               (case get_field ARGS decode_cfg Platform_ALL fielddef True 0 True s of
                  (SystemExit e, s1) \<Rightarrow> (SystemExit e, s1)
                | (Raise e, s1) \<Rightarrow> (Raise e, s1)
                | (Return v, s1) \<Rightarrow>
                    (case (case v of PInt i \<Rightarrow> Some i | PBool b \<Rightarrow> Some (if b then 1 else 0) | _ \<Rightarrow> None) of
                       None \<Rightarrow> (Raise TypeError, s1)
                     | Some config_version \<Rightarrow>
                         if int (length PLATFORMS) \<le> config_version then
                           (case exit' INVALID_DATA WARNING True s1 of
                              (SystemExit e, s2) \<Rightarrow> (SystemExit e, s2)
                            | (Raise e, s2) \<Rightarrow> (Raise e, s2)
                            | (Return _, s2) \<Rightarrow> (Return 0, s2))
                         else (Return config_version, s1)))))"

definition get_config_info ::
  "args \<Rightarrow> cfg list \<Rightarrow> byte list \<Rightarrow> pstate \<Rightarrow> config_info outcome \<times> pstate" where
  "get_config_info ARGS settings decode_cfg s =
     (case get_field ARGS decode_cfg Platform_ALL version_fielddef True 0 True s of
        (SystemExit e, s1) \<Rightarrow> (SystemExit e, s1)
      | (Raise e, s1) \<Rightarrow> (Raise e, s1)
      | (Return (PInt ver), s1) \<Rightarrow>
          (case identify_platform ARGS settings decode_cfg ver s1 of
             (SystemExit e, s2) \<Rightarrow> (SystemExit e, s2)
           | (Raise e, s2) \<Rightarrow> (Raise e, s2)
           | (Return config_version, s2) \<Rightarrow>
               (case find (\<lambda>cfg. fst cfg \<le> ver) (sorted_reverse settings) of
                  Some cfg \<Rightarrow>
                    (Return \<lparr>platform = config_version, version = ver, template_version = fst cfg,
                             template_size = fst (snd cfg), template = snd (snd cfg)\<rparr>, s2)
                | None \<Rightarrow>
                    (case exit' UNSUPPORTED_VERSION ERROR True s2 of
                       (SystemExit e, s3) \<Rightarrow> (SystemExit e, s3)
                     | (Raise e, s3) \<Rightarrow> (Raise e, s3)
                     | (Return _, s3) \<Rightarrow> (Raise TypeError, s3))))
      | (Return _, s1) \<Rightarrow> (Raise TypeError, s1))"

text \<open>
  The registry \<open>SETTINGS\<close> of the source: 83 entries \<open>(version, size, setting)\<close>, the
  newest first. Each setting of the source has some hundred fields; here it is cut down
  to the header fields above, which do not change between the versions that share them:
  \<open>version\<close> from 5.10.0, \<open>cfg_size\<close> and \<open>cfg_crc\<close> from 6.0.0, \<open>cfg_timestamp\<close> and
  \<open>cfg_crc32\<close> from 6.6.0.10, \<open>config_version\<close> from 8.2.0.4.
\<close>

definition SETTING_5_10_0 :: setting where
  "SETTING_5_10_0 = [(''version'', version_fielddef)]"

definition SETTING_6_0_0 :: setting where
  "SETTING_6_0_0 = SETTING_5_10_0 @ [(''cfg_size'', cfg_size_fielddef), (''cfg_crc'', cfg_crc_fielddef)]"

definition SETTING_6_6_0_10 :: setting where
  "SETTING_6_6_0_10 =
     SETTING_6_0_0 @ [(''cfg_timestamp'', cfg_timestamp_fielddef), (''cfg_crc32'', cfg_crc32_fielddef)]"

definition SETTING_8_2_0_4 :: setting where
  "SETTING_8_2_0_4 = SETTING_6_6_0_10 @ [(''config_version'', config_version_fielddef)]"

definition SETTINGS :: "cfg list" where
  "SETTINGS = [
      (0x8020004, 0x1000, SETTING_8_2_0_4),
      (0x8020003, 0x1000, SETTING_6_6_0_10),
      (0x8020000, 0x1000, SETTING_6_6_0_10),
      (0x801000B, 0x1000, SETTING_6_6_0_10),
      (0x801000A, 0x1000, SETTING_6_6_0_10),
      (0x8010009, 0x1000, SETTING_6_6_0_10),
      (0x8010006, 0x1000, SETTING_6_6_0_10),
      (0x8010005, 0x1000, SETTING_6_6_0_10),
      (0x8010004, 0x1000, SETTING_6_6_0_10),
      (0x8010003, 0x1000, SETTING_6_6_0_10),
      (0x8010002, 0x1000, SETTING_6_6_0_10),
      (0x8010001, 0x1000, SETTING_6_6_0_10),
      (0x8010000, 0x1000, SETTING_6_6_0_10),
      (0x8000001, 0x1000, SETTING_6_6_0_10),
      (0x7010206, 0x1000, SETTING_6_6_0_10),
      (0x7010205, 0x1000, SETTING_6_6_0_10),
      (0x7010203, 0x1000, SETTING_6_6_0_10),
      (0x7010202, 0x1000, SETTING_6_6_0_10),
      (0x7000006, 0x1000, SETTING_6_6_0_10),
      (0x7000005, 0x1000, SETTING_6_6_0_10),
      (0x7000004, 0x1000, SETTING_6_6_0_10),
      (0x7000003, 0x1000, SETTING_6_6_0_10),
      (0x7000002, 0x1000, SETTING_6_6_0_10),
      (0x7000001, 0x1000, SETTING_6_6_0_10),
      (0x6060015, 0x1000, SETTING_6_6_0_10),
      (0x6060014, 0x1000, SETTING_6_6_0_10),
      (0x6060012, 0x1000, SETTING_6_6_0_10),
      (0x606000F, 0x1000, SETTING_6_6_0_10),
      (0x606000E, 0x1000, SETTING_6_6_0_10),
      (0x606000D, 0x1000, SETTING_6_6_0_10),
      (0x606000C, 0x1000, SETTING_6_6_0_10),
      (0x606000B, 0x1000, SETTING_6_6_0_10),
      (0x606000A, 0x1000, SETTING_6_6_0_10),
      (0x6060009, 0x1000, SETTING_6_0_0),
      (0x6060008, 0x1000, SETTING_6_0_0),
      (0x6060007, 0x1000, SETTING_6_0_0),
      (0x6060006, 0xe00, SETTING_6_0_0),
      (0x6060005, 0xe00, SETTING_6_0_0),
      (0x6060003, 0xe00, SETTING_6_0_0),
      (0x6060002, 0xe00, SETTING_6_0_0),
      (0x6060001, 0xe00, SETTING_6_0_0),
      (0x605000F, 0xe00, SETTING_6_0_0),
      (0x605000C, 0xe00, SETTING_6_0_0),
      (0x605000B, 0xe00, SETTING_6_0_0),
      (0x605000A, 0xe00, SETTING_6_0_0),
      (0x6050009, 0xe00, SETTING_6_0_0),
      (0x6050007, 0xe00, SETTING_6_0_0),
      (0x6050006, 0xe00, SETTING_6_0_0),
      (0x6050003, 0xe00, SETTING_6_0_0),
      (0x6040112, 0xe00, SETTING_6_0_0),
      (0x6040111, 0xe00, SETTING_6_0_0),
      (0x6040110, 0xe00, SETTING_6_0_0),
      (0x604010D, 0xe00, SETTING_6_0_0),
      (0x604010B, 0xe00, SETTING_6_0_0),
      (0x6040108, 0xe00, SETTING_6_0_0),
      (0x6040107, 0xe00, SETTING_6_0_0),
      (0x6040104, 0xe00, SETTING_6_0_0),
      (0x6040002, 0xe00, SETTING_6_0_0),
      (0x6030010, 0xe00, SETTING_6_0_0),
      (0x603000F, 0xe00, SETTING_6_0_0),
      (0x603000E, 0xe00, SETTING_6_0_0),
      (0x603000D, 0xe00, SETTING_6_0_0),
      (0x603000B, 0xe00, SETTING_6_0_0),
      (0x603000A, 0xe00, SETTING_6_0_0),
      (0x6030008, 0xe00, SETTING_6_0_0),
      (0x6030004, 0xe00, SETTING_6_0_0),
      (0x6030002, 0xe00, SETTING_6_0_0),
      (0x6030000, 0xe00, SETTING_6_0_0),
      (0x6020114, 0xe00, SETTING_6_0_0),
      (0x6020113, 0xe00, SETTING_6_0_0),
      (0x602010E, 0xe00, SETTING_6_0_0),
      (0x602010A, 0xe00, SETTING_6_0_0),
      (0x6020106, 0xe00, SETTING_6_0_0),
      (0x6020103, 0xe00, SETTING_6_0_0),
      (0x6020102, 0xe00, SETTING_6_0_0),
      (0x6020100, 0xe00, SETTING_6_0_0),
      (0x6010100, 0xe00, SETTING_6_0_0),
      (0x6000000, 0xe00, SETTING_6_0_0),
      (0x50E0000, 0xa00, SETTING_5_10_0),
      (0x50D0100, 0xa00, SETTING_5_10_0),
      (0x50C0000, 0x670, SETTING_5_10_0),
      (0x50B0000, 0x670, SETTING_5_10_0),
      (0x50A0000, 0x670, SETTING_5_10_0)]"

section \<open>Checksums\<close>

text \<open>
  \<^verbatim>\<open>
  def get_settingcrc(dobj):
      crc = 0
      config_info = get_config_info(dobj)
      for i in range(0, config_info['template_size']):
          if not i in [14, 15]: # Skip crc
              byte_ = dobj[i]
              crc += byte_ * (i+1)
      return crc & 0xffff

  def get_settingcrc32(dobj):
      crc = 0
      for i in range(0, len(dobj)-4):
          crc ^= dobj[i]
          for _ in range(0, 8):
              crc = (crc >> 1) ^ (-int(crc & 1) & 0xEDB88320)
      return ~crc & 0xffffffff
  \<close>
  \<open>dobj[i]\<close> raises \<open>IndexError\<close> past the end of the buffer.
\<close>

definition settingcrc_step :: "byte list \<Rightarrow> int option \<Rightarrow> nat \<Rightarrow> int option" where
  "settingcrc_step dobj acc i =
     (case acc of
        None \<Rightarrow> None
      | Some crc \<Rightarrow>
          if i \<noteq> 14 \<and> i \<noteq> 15
          then (if i < length dobj then Some (crc + uint (dobj ! i) * (int i + 1)) else None)
          else Some crc)"

definition get_settingcrc :: "args \<Rightarrow> cfg list \<Rightarrow> byte list \<Rightarrow> pstate \<Rightarrow> int outcome \<times> pstate" where
  "get_settingcrc ARGS settings dobj s =
     (case get_config_info ARGS settings dobj s of
        (SystemExit e, s1) \<Rightarrow> (SystemExit e, s1)
      | (Raise e, s1) \<Rightarrow> (Raise e, s1)
      | (Return config_info, s1) \<Rightarrow>
          (case foldl (settingcrc_step dobj) (Some 0) [0..<template_size config_info] of
             None \<Rightarrow> (Raise IndexError, s1)
           | Some crc \<Rightarrow> (Return (crc AND 0xffff), s1)))"

definition crc32_bit :: "int \<Rightarrow> int" where
  "crc32_bit crc = drop_bit 1 crc XOR (- (crc AND 1) AND 0xEDB88320)"

definition get_settingcrc32 :: "byte list \<Rightarrow> int" where
  "get_settingcrc32 dobj =
     NOT (foldl (\<lambda>crc i. (crc32_bit ^^ 8) (crc XOR uint (dobj ! i))) 0 [0..<length dobj - 4])
       AND 0xffffffff"

section \<open>Mapping engine: binary to mapping\<close>

text \<open>
  \<^verbatim>\<open>
  def bin2mapping(decode_cfg):
      # get binary header and template to use
      config_info = get_config_info(decode_cfg)

      # check size if exists
      cfg_size = None
      cfg_size_fielddef = config_info['template'].get('cfg_size', None)
      if cfg_size_fielddef is not None:
          cfg_size = get_field(decode_cfg, Platform.ALL, 'cfg_size', cfg_size_fielddef, raw=True, ignoregroup=True)
          # read size should be same as definied in setting
          if cfg_size > config_info['template_size']:
              # may be processed
              exit_(ExitCode.DATA_SIZE_MISMATCH, "Number of bytes read does ot match - read {}, expected {} byte".format(cfg_size, config_info['template_size']), type_=LogType.ERROR, line=inspect.getlineno(inspect.currentframe()))
          elif cfg_size < config_info['template_size']:
              # less number of bytes can not be processed
              exit_(ExitCode.DATA_SIZE_MISMATCH, "Number of bytes read to small to process - read {}, expected {} byte".format(cfg_size, config_info['template_size']), type_=LogType.ERROR, line=inspect.getlineno(inspect.currentframe()))
  \<close>
  Neither \<open>exit_\<close> call passes \<open>doexit\<close>.
\<close>

definition check_size ::
  "args \<Rightarrow> byte list \<Rightarrow> config_info \<Rightarrow> pstate \<Rightarrow> pyval outcome \<times> pstate" where
  "check_size ARGS decode_cfg config_info s =
     (case map_of (template config_info) ''cfg_size'' of
        None \<Rightarrow> (Return PNone, s)
      | Some fielddef \<Rightarrow>
          (case get_field ARGS decode_cfg Platform_ALL fielddef True 0 True s of
             (SystemExit e, s1) \<Rightarrow> (SystemExit e, s1)
           | (Raise e, s1) \<Rightarrow> (Raise e, s1)
           | (Return cfg_size, s1) \<Rightarrow>
               (case as_number cfg_size of
                  None \<Rightarrow> (Raise TypeError, s1)
                | Some n \<Rightarrow>
                    if int (template_size config_info) < n then
                      (case exit' DATA_SIZE_MISMATCH ERROR True s1 of
                         (SystemExit e, s2) \<Rightarrow> (SystemExit e, s2)
                       | (Raise e, s2) \<Rightarrow> (Raise e, s2)
                       | (Return _, s2) \<Rightarrow> (Return cfg_size, s2))
                    else if n < int (template_size config_info) then
                      (case exit' DATA_SIZE_MISMATCH ERROR True s1 of
                         (SystemExit e, s2) \<Rightarrow> (SystemExit e, s2)
                       | (Raise e, s2) \<Rightarrow> (Raise e, s2)
                       | (Return _, s2) \<Rightarrow> (Return cfg_size, s2))
                    else (Return cfg_size, s1))))"

text \<open>
  \<^verbatim>\<open>
      # check crc if exists
      cfg_crc_fielddef = config_info['template'].get('cfg_crc', None)
      if cfg_crc_fielddef is not None:
          cfg_crc = get_field(decode_cfg, Platform.ALL, 'cfg_crc', cfg_crc_fielddef, raw=True, ignoregroup=True)
      else:
          cfg_crc = get_settingcrc(decode_cfg)
      cfg_crc32 = None
      cfg_crc32_fielddef = config_info['template'].get('cfg_crc32', None)
      if cfg_crc32_fielddef is not None:
          cfg_crc32 = get_field(decode_cfg, Platform.ALL, 'cfg_crc32', cfg_crc32_fielddef, raw=True, ignoregroup=True)
      else:
          cfg_crc32 = get_settingcrc32(decode_cfg)
      cfg_timestamp = int(time.time())
      cfg_timestamp_fielddef = config_info['template'].get('cfg_timestamp', None)
      if cfg_timestamp_fielddef is not None:
          cfg_timestamp = get_field(decode_cfg, Platform.ALL, 'cfg_timestamp', cfg_timestamp_fielddef, raw=True, ignoregroup=True)

      if config_info['version'] < 0x0606000B:
          if cfg_crc != get_settingcrc(decode_cfg):
              exit_(ExitCode.DATA_CRC_ERROR, 'Data CRC error, ...', type_=LogType.WARNING, doexit=not ARGS.ignorewarning, line=...)
      else:
          if cfg_crc32 != get_settingcrc32(decode_cfg):
              exit_(ExitCode.DATA_CRC_ERROR, 'Data CRC32 error, ...', type_=LogType.WARNING, doexit=not ARGS.ignorewarning, line=...)
  \<close>
  \<open>read_or\<close> reads a header field when the setting has it and takes the given value
  otherwise. The time stamp only goes to the header block of the result; its read counts
  for the exception it may raise.
\<close>

definition read_or ::
  "args \<Rightarrow> byte list \<Rightarrow> config_info \<Rightarrow> string \<Rightarrow> pyval outcome \<times> pstate \<Rightarrow> pstate
   \<Rightarrow> pyval outcome \<times> pstate" where
  "read_or ARGS decode_cfg config_info name otherwise s =
     (case map_of (template config_info) name of
        Some fielddef \<Rightarrow> get_field ARGS decode_cfg Platform_ALL fielddef True 0 True s
      | None \<Rightarrow> otherwise)"

definition check_crc ::
  "args \<Rightarrow> cfg list \<Rightarrow> byte list \<Rightarrow> config_info \<Rightarrow> pstate \<Rightarrow> unit outcome \<times> pstate" where
  "check_crc ARGS settings decode_cfg config_info s =
     (case read_or ARGS decode_cfg config_info ''cfg_crc''
             (case get_settingcrc ARGS settings decode_cfg s of
                (Return crc, s1) \<Rightarrow> (Return (PInt crc), s1)
              | (SystemExit e, s1) \<Rightarrow> (SystemExit e, s1)
              | (Raise e, s1) \<Rightarrow> (Raise e, s1)) s of
        (SystemExit e, s1) \<Rightarrow> (SystemExit e, s1)
      | (Raise e, s1) \<Rightarrow> (Raise e, s1)
      | (Return cfg_crc, s1) \<Rightarrow>
          (case read_or ARGS decode_cfg config_info ''cfg_crc32''
                  (Return (PInt (get_settingcrc32 decode_cfg)), s1) s1 of
             (SystemExit e, s2) \<Rightarrow> (SystemExit e, s2)
           | (Raise e, s2) \<Rightarrow> (Raise e, s2)
           | (Return cfg_crc32, s2) \<Rightarrow>
               (case read_or ARGS decode_cfg config_info ''cfg_timestamp'' (Return PNone, s2) s2 of
                  (SystemExit e, s3) \<Rightarrow> (SystemExit e, s3)
                | (Raise e, s3) \<Rightarrow> (Raise e, s3)
                | (Return cfg_timestamp, s3) \<Rightarrow>
                    if version config_info < 0x0606000B then
                      (case get_settingcrc ARGS settings decode_cfg s3 of
                         (SystemExit e, s4) \<Rightarrow> (SystemExit e, s4)
                       | (Raise e, s4) \<Rightarrow> (Raise e, s4)
                       | (Return crc, s4) \<Rightarrow>
                           if \<not> py_eq_int cfg_crc crc
                           then exit' DATA_CRC_ERROR WARNING (\<not> ignorewarning ARGS) s4
                           else (Return (), s4))
                    else
                      if \<not> py_eq_int cfg_crc32 (get_settingcrc32 decode_cfg)
                      then exit' DATA_CRC_ERROR WARNING (\<not> ignorewarning ARGS) s3
                      else (Return (), s3))))"

text \<open>
  \<^verbatim>\<open>
      # get valuemapping
      valuemapping = get_field(decode_cfg, 1<<config_info['platform'], None, (Platform.ALL, config_info['template'], 0, (None, None, ('System', None))), ignoregroup=True)

      # remove keys having empty object
      if valuemapping is not None:
          for key in {k: v for k, v in valuemapping.items() if isinstance(v, (dict, list, tuple)) and len(valuemapping[k]) == 0}:
              valuemapping.pop(key, None)

      # add header info
      valuemapping['header'] = { ... }
      return valuemapping
  \<close>
  The header block holds the time, the host and the checksums again; it is left out of
  the model, which returns the mapping of the fields.
\<close>

fun is_empty_container :: "pyval \<Rightarrow> bool" where
  "is_empty_container (PList []) = True"
| "is_empty_container (PDict []) = True"
| "is_empty_container _ = False"

definition bin2mapping :: "args \<Rightarrow> cfg list \<Rightarrow> byte list \<Rightarrow> pstate \<Rightarrow> pyval outcome \<times> pstate" where
  "bin2mapping ARGS settings decode_cfg s =
     (case get_config_info ARGS settings decode_cfg s of
        (SystemExit e, s1) \<Rightarrow> (SystemExit e, s1)
      | (Raise e, s1) \<Rightarrow> (Raise e, s1)
      | (Return config_info, s1) \<Rightarrow>
          (case check_size ARGS decode_cfg config_info s1 of
             (SystemExit e, s2) \<Rightarrow> (SystemExit e, s2)
           | (Raise e, s2) \<Rightarrow> (Raise e, s2)
           | (Return cfg_size, s2) \<Rightarrow>
               (case check_crc ARGS settings decode_cfg config_info s2 of
                  (SystemExit e, s3) \<Rightarrow> (SystemExit e, s3)
                | (Raise e, s3) \<Rightarrow> (Raise e, s3)
                | (Return _, s3) \<Rightarrow>
                    (case get_field ARGS decode_cfg (push_bit (nat (platform config_info)) 1)
                            (FieldDef Platform_ALL (Setting (template config_info)) 0 0 0 None [] None
                               (Some ''System'') ConvNone ConvNone)
                            False 0 True s3 of
                       (SystemExit e, s4) \<Rightarrow> (SystemExit e, s4)
                     | (Raise e, s4) \<Rightarrow> (Raise e, s4)
                     | (Return (PDict kvs), s4) \<Rightarrow>
                         (Return (PDict (filter (\<lambda>kv. \<not> is_empty_container (snd kv)) kvs)), s4)
                     | (Return _, s4) \<Rightarrow> (Raise TypeError, s4)))))"

section \<open>File classifier\<close>

text \<open>
  \<^verbatim>\<open>
  class FileType:
      FILE_NOT_FOUND = None
      DMP = 'dmp'
      JSON = 'json'
      BIN = 'bin'
      UNKNOWN = 'unknown'
      INCOMPLETE_JSON = 'incomplete json'
      INVALID_JSON = 'invalid json'
      INVALID_BIN = 'invalid bin'
  \<close>
  \<open>FileType.FILE_NOT_FOUND\<close> is written \<open>NOT_FOUND\<close>, the name
  \<open>FILE_NOT_FOUND\<close> being the exit code.
\<close>

datatype FileType = NOT_FOUND | DMP | JSON | BIN | UNKNOWN | INCOMPLETE_JSON | INVALID_JSON | INVALID_BIN

text \<open>
  What \<open>get_filetype\<close> sees of the file system, for one file name: whether
  \<open>open(filename, "r")\<close> succeeds; how \<open>json.load\<close> on it ends (it returns, raises
  \<open>ValueError\<close>, which covers a JSON syntax error and a text decoding error, or raises
  something else); what \<open>os.path.getsize\<close> returns, if it returns; the content that the
  binary read returns, if it returns.
\<close>

datatype json_load = Loaded | RaisedValueError | RaisedOther

record file_probe =
  open_ok :: bool
  json_loaded :: json_load
  getsize :: "nat option"
  read_rb :: "byte list option"

definition BINARYFILE_MAGIC :: int where
  "BINARYFILE_MAGIC = 0x63576223"

text \<open>
  \<^verbatim>\<open>
  def get_filetype(filename):
      filetype = FileType.UNKNOWN
      # try filename
      try:
          with open(filename, "r") as file:
              try:
                  # try reading as json
                  json.load(file)
                  filetype = FileType.JSON
              except ValueError:
                  filetype = FileType.INVALID_JSON
                  # not a valid json, get filesize and compare it with all possible sizes
                  try:
                      size = os.path.getsize(filename)
                  except:
                      filetype = FileType.UNKNOWN

                  header_format = '<L'
                  sizes = get_templatesizes()
                  # size is one of a dmp file size
                  if size in sizes:
                      filetype = FileType.DMP
                  elif size - struct.calcsize(header_format) in sizes:
                      # check if the binary file has the magic header
                      with open(filename, "rb") as inputfile:
                          inputbin = inputfile.read()
                      if struct.unpack_from(header_format, inputbin, 0)[0] == BINARYFILE_MAGIC or \
                         struct.unpack_from(header_format, inputbin, len(inputbin)-struct.calcsize(header_format))[0] == BINARYFILE_MAGIC:
                          filetype = FileType.BIN
                      else:
                          filetype = FileType.INVALID_BIN
      except:
          filetype = FileType.FILE_NOT_FOUND
      return filetype
  \<close>
  When \<open>getsize\<close> fails, \<open>size\<close> has no value and the test \<open>size in sizes\<close> raises
  \<open>UnboundLocalError\<close>, which the outer handler turns into \<open>FILE_NOT_FOUND\<close>, as it
  does with every other exception.
\<close>

definition get_filetype :: "cfg list \<Rightarrow> file_probe \<Rightarrow> FileType" where
  "get_filetype settings file =
     (if \<not> open_ok file then NOT_FOUND
      else
        (case json_loaded file of
           Loaded \<Rightarrow> JSON
         | RaisedOther \<Rightarrow> NOT_FOUND
         | RaisedValueError \<Rightarrow>
             (case getsize file of
                None \<Rightarrow> NOT_FOUND
              | Some fsize \<Rightarrow>
                  (let sizes = get_templatesizes settings in
                   if fsize \<in> set sizes then DMP
                   else if int fsize - int (calcsize (Scalar LittleEndian FL)) \<in> int ` set sizes then
                     (case read_rb file of
                        None \<Rightarrow> NOT_FOUND
                      | Some inputbin \<Rightarrow>
                          (case unpack_from_int LittleEndian FL inputbin 0 of
                             None \<Rightarrow> NOT_FOUND
                           | Some head \<Rightarrow>
                               if head = BINARYFILE_MAGIC then BIN
                               else
                                 (case unpack_from_int LittleEndian FL inputbin
                                         (length inputbin - calcsize (Scalar LittleEndian FL)) of
                                    None \<Rightarrow> NOT_FOUND
                                  | Some tail \<Rightarrow>
                                      if tail = BINARYFILE_MAGIC then BIN else INVALID_BIN)))
                   else INVALID_JSON))))"

section \<open>A concrete command-line namespace\<close>

text \<open>
  Every property below is proved for all namespaces and all library functions. The examples
  are evaluated in the namespace \<open>DEFAULTS\<close>: the defaults of the source
  (\<open>'ignorewarning': False\<close>, \<open>'filter': None\<close>, \<open>'jsonhidepw': False\<close>) with the
  three library functions of CPython 3.11, whose tables are those of Unicode 14.0.0.
\<close>

subsection \<open>Integer literals\<close>

text \<open>
  \<open>int(s, 0)\<close> for a \<open>str\<close> first replaces every code point from 127 on: a white-space
  character by a blank, a decimal digit of any script by its ASCII digit; any other such code point
  makes the text invalid. \<open>digit_blocks\<close> lists the first code point of every run of the
  ten decimal digits of a script, \<open>unicode_spaces\<close> the white-space characters.
\<close>

definition digit_blocks :: "nat list" where
  "digit_blocks =
     [0x660, 0x6F0, 0x7C0, 0x966, 0x9E6, 0xA66, 0xAE6, 0xB66,
      0xBE6, 0xC66, 0xCE6, 0xD66, 0xDE6, 0xE50, 0xED0, 0xF20,
      0x1040, 0x1090, 0x17E0, 0x1810, 0x1946, 0x19D0, 0x1A80, 0x1A90,
      0x1B50, 0x1BB0, 0x1C40, 0x1C50, 0xA620, 0xA8D0, 0xA900, 0xA9D0,
      0xA9F0, 0xAA50, 0xABF0, 0xFF10, 0x104A0, 0x10D30, 0x11066, 0x110F0,
      0x11136, 0x111D0, 0x112F0, 0x11450, 0x114D0, 0x11650, 0x116C0, 0x11730,
      0x118E0, 0x11950, 0x11C50, 0x11D50, 0x11DA0, 0x16A60, 0x16AC0, 0x16B50,
      0x1D7CE, 0x1D7D8, 0x1D7E2, 0x1D7EC, 0x1D7F6, 0x1E140, 0x1E2F0, 0x1E950,
      0x1FBF0]"

definition unicode_spaces :: "nat list" where
  "unicode_spaces =
     [0x85, 0xA0, 0x1680, 0x2000, 0x2001, 0x2002, 0x2003, 0x2004, 0x2005, 0x2006,
      0x2007, 0x2008, 0x2009, 0x200A, 0x2028, 0x2029, 0x202F, 0x205F, 0x3000]"

definition to_ascii :: "nat \<Rightarrow> nat option" where
  "to_ascii ch =
     (if ch < 127 then Some ch
      else if ch \<in> set unicode_spaces then Some 32
      else (case find (\<lambda>b. b \<le> ch \<and> ch < b + 10) digit_blocks of
              Some b \<Rightarrow> Some (48 + (ch - b))
            | None \<Rightarrow> None))"

fun transform_decimal_and_space :: "nat list \<Rightarrow> nat list option" where
  "transform_decimal_and_space [] = Some []"
| "transform_decimal_and_space (ch # t) =
     (case to_ascii ch of
        None \<Rightarrow> None
      | Some a \<Rightarrow> (case transform_decimal_and_space t of None \<Rightarrow> None | Some r \<Rightarrow> Some (a # r)))"

text \<open>
  The parser of the C implementation, \<open>PyLong_FromString\<close>, on ASCII text: blanks, a sign,
  with base 0 a prefix \<open>0x\<close>, \<open>0o\<close> or \<open>0b\<close> (and one underscore after it), the digits with
  single underscores between them, blanks. With base 0 a literal that starts with \<open>0\<close> and has no
  prefix must be zero. A literal of more than 4300 digits in a base that is not a power of two is
  refused. \<open>None\<close> stands for \<open>ValueError\<close>.
\<close>

definition Py_ISSPACE :: "nat \<Rightarrow> bool" where
  "Py_ISSPACE c = (c = 32 \<or> (9 \<le> c \<and> c \<le> 13))"

definition digit_value :: "nat \<Rightarrow> nat" where
  "digit_value c =
     (if 48 \<le> c \<and> c \<le> 57 then c - 48
      else if 97 \<le> c \<and> c \<le> 122 then c - 87
      else if 65 \<le> c \<and> c \<le> 90 then c - 55
      else 37)"

text \<open>\<open>scan_digits\<close> reads the run of digits and underscores: \<open>prev\<close> says that the last
  character was an underscore; the result is the number of digits, their value and the rest.\<close>

fun scan_digits :: "nat \<Rightarrow> nat list \<Rightarrow> bool \<Rightarrow> nat \<Rightarrow> int \<Rightarrow> (nat \<times> int \<times> nat list) option" where
  "scan_digits base [] prev digits z = (if prev then None else Some (digits, z, []))"
| "scan_digits base (c # cs) prev digits z =
     (if c = 95 then (if prev then None else scan_digits base cs True digits z)
      else if digit_value c < base
      then scan_digits base cs False (Suc digits) (z * int base + int (digit_value c))
      else if prev then None else Some (digits, z, c # cs))"

definition PyLong_FromString :: "nat list \<Rightarrow> nat \<Rightarrow> int option" where
  "PyLong_FromString str0 base0 =
     (let s1 = dropWhile Py_ISSPACE str0;
          negative = (case s1 of c # _ \<Rightarrow> c = 45 | [] \<Rightarrow> False);
          s2 = (case s1 of c # r \<Rightarrow> if c = 43 \<or> c = 45 then r else s1 | [] \<Rightarrow> s1);
          c0 = (case s2 of c # _ \<Rightarrow> c | [] \<Rightarrow> 0);
          c1 = (case s2 of _ # c # _ \<Rightarrow> c | _ \<Rightarrow> 0);
          base = (if base0 \<noteq> 0 then base0
                  else if c0 \<noteq> 48 then 10
                  else if c1 = 120 \<or> c1 = 88 then 16
                  else if c1 = 111 \<or> c1 = 79 then 8
                  else if c1 = 98 \<or> c1 = 66 then 2
                  else 10);
          error_if_nonzero = (base0 = 0 \<and> c0 = 48
                              \<and> \<not> (c1 = 120 \<or> c1 = 88 \<or> c1 = 111 \<or> c1 = 79 \<or> c1 = 98 \<or> c1 = 66));
          prefixed = (c0 = 48 \<and> ((base = 16 \<and> (c1 = 120 \<or> c1 = 88))
                                  \<or> (base = 8 \<and> (c1 = 111 \<or> c1 = 79))
                                  \<or> (base = 2 \<and> (c1 = 98 \<or> c1 = 66))));
          s3 = (if prefixed
                then (case drop 2 s2 of c # r \<Rightarrow> if c = 95 then r else c # r | [] \<Rightarrow> [])
                else s2)
      in if (case s3 of c # _ \<Rightarrow> c = 95 | [] \<Rightarrow> False) then None
         else
           (case scan_digits base s3 False 0 0 of
              None \<Rightarrow> None
            | Some (digits, z, rest) \<Rightarrow>
                if digits = 0 then None
                else if \<not> (base = 2 \<or> base = 4 \<or> base = 8 \<or> base = 16 \<or> base = 32) \<and> 4300 < digits
                then None
                else if error_if_nonzero \<and> z \<noteq> 0 then None
                else if dropWhile Py_ISSPACE rest \<noteq> [] then None
                else Some (if negative then - z else z)))"

text \<open>\<open>int(s, 0)\<close> for a \<open>str\<close> and \<open>int(b)\<close> for a \<open>bytes\<close> object (base 10).\<close>

definition int_of_str :: "pystr \<Rightarrow> int option" where
  "int_of_str t =
     (case transform_decimal_and_space t of
        None \<Rightarrow> None
      | Some a \<Rightarrow> PyLong_FromString a 0)"

definition int_of_bytes :: "byte list \<Rightarrow> int option" where
  "int_of_bytes bs = PyLong_FromString (map unat bs) 10"

subsection \<open>Printable characters\<close>

text \<open>
  \<open>str.isprintable\<close> on one code point: false for the code points of the general categories
  \<open>Cc\<close>, \<open>Cf\<close>, \<open>Cs\<close>, \<open>Co\<close>, \<open>Cn\<close>, \<open>Zl\<close>, \<open>Zp\<close> and \<open>Zs\<close> (the blank, U+0020,
  apart), listed here as ranges with both ends.
\<close>

definition unprintable :: "(nat \<times> nat) list" where
  "unprintable =
     [(0x0, 0x1F), (0x7F, 0xA0), (0xAD, 0xAD), (0x378, 0x379), (0x380, 0x383),
      (0x38B, 0x38B), (0x38D, 0x38D), (0x3A2, 0x3A2), (0x530, 0x530), (0x557, 0x558),
      (0x58B, 0x58C), (0x590, 0x590), (0x5C8, 0x5CF), (0x5EB, 0x5EE), (0x5F5, 0x605),
      (0x61C, 0x61C), (0x6DD, 0x6DD), (0x70E, 0x70F), (0x74B, 0x74C), (0x7B2, 0x7BF),
      (0x7FB, 0x7FC), (0x82E, 0x82F), (0x83F, 0x83F), (0x85C, 0x85D), (0x85F, 0x85F),
      (0x86B, 0x86F), (0x88F, 0x897), (0x8E2, 0x8E2), (0x984, 0x984), (0x98D, 0x98E),
      (0x991, 0x992), (0x9A9, 0x9A9), (0x9B1, 0x9B1), (0x9B3, 0x9B5), (0x9BA, 0x9BB),
      (0x9C5, 0x9C6), (0x9C9, 0x9CA), (0x9CF, 0x9D6), (0x9D8, 0x9DB), (0x9DE, 0x9DE),
      (0x9E4, 0x9E5), (0x9FF, 0xA00), (0xA04, 0xA04), (0xA0B, 0xA0E), (0xA11, 0xA12),
      (0xA29, 0xA29), (0xA31, 0xA31), (0xA34, 0xA34), (0xA37, 0xA37), (0xA3A, 0xA3B),
      (0xA3D, 0xA3D), (0xA43, 0xA46), (0xA49, 0xA4A), (0xA4E, 0xA50), (0xA52, 0xA58),
      (0xA5D, 0xA5D), (0xA5F, 0xA65), (0xA77, 0xA80), (0xA84, 0xA84), (0xA8E, 0xA8E),
      (0xA92, 0xA92), (0xAA9, 0xAA9), (0xAB1, 0xAB1), (0xAB4, 0xAB4), (0xABA, 0xABB),
      (0xAC6, 0xAC6), (0xACA, 0xACA), (0xACE, 0xACF), (0xAD1, 0xADF), (0xAE4, 0xAE5),
      (0xAF2, 0xAF8), (0xB00, 0xB00), (0xB04, 0xB04), (0xB0D, 0xB0E), (0xB11, 0xB12),
      (0xB29, 0xB29), (0xB31, 0xB31), (0xB34, 0xB34), (0xB3A, 0xB3B), (0xB45, 0xB46),
      (0xB49, 0xB4A), (0xB4E, 0xB54), (0xB58, 0xB5B), (0xB5E, 0xB5E), (0xB64, 0xB65),
      (0xB78, 0xB81), (0xB84, 0xB84), (0xB8B, 0xB8D), (0xB91, 0xB91), (0xB96, 0xB98),
      (0xB9B, 0xB9B), (0xB9D, 0xB9D), (0xBA0, 0xBA2), (0xBA5, 0xBA7), (0xBAB, 0xBAD),
      (0xBBA, 0xBBD), (0xBC3, 0xBC5), (0xBC9, 0xBC9), (0xBCE, 0xBCF), (0xBD1, 0xBD6),
      (0xBD8, 0xBE5), (0xBFB, 0xBFF), (0xC0D, 0xC0D), (0xC11, 0xC11), (0xC29, 0xC29),
      (0xC3A, 0xC3B), (0xC45, 0xC45), (0xC49, 0xC49), (0xC4E, 0xC54), (0xC57, 0xC57),
      (0xC5B, 0xC5C), (0xC5E, 0xC5F), (0xC64, 0xC65), (0xC70, 0xC76), (0xC8D, 0xC8D),
      (0xC91, 0xC91), (0xCA9, 0xCA9), (0xCB4, 0xCB4), (0xCBA, 0xCBB), (0xCC5, 0xCC5),
      (0xCC9, 0xCC9), (0xCCE, 0xCD4), (0xCD7, 0xCDC), (0xCDF, 0xCDF), (0xCE4, 0xCE5),
      (0xCF0, 0xCF0), (0xCF3, 0xCFF), (0xD0D, 0xD0D), (0xD11, 0xD11), (0xD45, 0xD45),
      (0xD49, 0xD49), (0xD50, 0xD53), (0xD64, 0xD65), (0xD80, 0xD80), (0xD84, 0xD84),
      (0xD97, 0xD99), (0xDB2, 0xDB2), (0xDBC, 0xDBC), (0xDBE, 0xDBF), (0xDC7, 0xDC9),
      (0xDCB, 0xDCE), (0xDD5, 0xDD5), (0xDD7, 0xDD7), (0xDE0, 0xDE5), (0xDF0, 0xDF1),
      (0xDF5, 0xE00), (0xE3B, 0xE3E), (0xE5C, 0xE80), (0xE83, 0xE83), (0xE85, 0xE85),
      (0xE8B, 0xE8B), (0xEA4, 0xEA4), (0xEA6, 0xEA6), (0xEBE, 0xEBF), (0xEC5, 0xEC5),
      (0xEC7, 0xEC7), (0xECE, 0xECF), (0xEDA, 0xEDB), (0xEE0, 0xEFF), (0xF48, 0xF48),
      (0xF6D, 0xF70), (0xF98, 0xF98), (0xFBD, 0xFBD), (0xFCD, 0xFCD), (0xFDB, 0xFFF),
      (0x10C6, 0x10C6), (0x10C8, 0x10CC), (0x10CE, 0x10CF), (0x1249, 0x1249), (0x124E, 0x124F),
      (0x1257, 0x1257), (0x1259, 0x1259), (0x125E, 0x125F), (0x1289, 0x1289), (0x128E, 0x128F),
      (0x12B1, 0x12B1), (0x12B6, 0x12B7), (0x12BF, 0x12BF), (0x12C1, 0x12C1), (0x12C6, 0x12C7),
      (0x12D7, 0x12D7), (0x1311, 0x1311), (0x1316, 0x1317), (0x135B, 0x135C), (0x137D, 0x137F),
      (0x139A, 0x139F), (0x13F6, 0x13F7), (0x13FE, 0x13FF), (0x1680, 0x1680), (0x169D, 0x169F),
      (0x16F9, 0x16FF), (0x1716, 0x171E), (0x1737, 0x173F), (0x1754, 0x175F), (0x176D, 0x176D),
      (0x1771, 0x1771), (0x1774, 0x177F), (0x17DE, 0x17DF), (0x17EA, 0x17EF), (0x17FA, 0x17FF),
      (0x180E, 0x180E), (0x181A, 0x181F), (0x1879, 0x187F), (0x18AB, 0x18AF), (0x18F6, 0x18FF),
      (0x191F, 0x191F), (0x192C, 0x192F), (0x193C, 0x193F), (0x1941, 0x1943), (0x196E, 0x196F),
      (0x1975, 0x197F), (0x19AC, 0x19AF), (0x19CA, 0x19CF), (0x19DB, 0x19DD), (0x1A1C, 0x1A1D),
      (0x1A5F, 0x1A5F), (0x1A7D, 0x1A7E), (0x1A8A, 0x1A8F), (0x1A9A, 0x1A9F), (0x1AAE, 0x1AAF),
      (0x1ACF, 0x1AFF), (0x1B4D, 0x1B4F), (0x1B7F, 0x1B7F), (0x1BF4, 0x1BFB), (0x1C38, 0x1C3A),
      (0x1C4A, 0x1C4C), (0x1C89, 0x1C8F), (0x1CBB, 0x1CBC), (0x1CC8, 0x1CCF), (0x1CFB, 0x1CFF),
      (0x1F16, 0x1F17), (0x1F1E, 0x1F1F), (0x1F46, 0x1F47), (0x1F4E, 0x1F4F), (0x1F58, 0x1F58),
      (0x1F5A, 0x1F5A), (0x1F5C, 0x1F5C), (0x1F5E, 0x1F5E), (0x1F7E, 0x1F7F), (0x1FB5, 0x1FB5),
      (0x1FC5, 0x1FC5), (0x1FD4, 0x1FD5), (0x1FDC, 0x1FDC), (0x1FF0, 0x1FF1), (0x1FF5, 0x1FF5),
      (0x1FFF, 0x200F), (0x2028, 0x202F), (0x205F, 0x206F), (0x2072, 0x2073), (0x208F, 0x208F),
      (0x209D, 0x209F), (0x20C1, 0x20CF), (0x20F1, 0x20FF), (0x218C, 0x218F), (0x2427, 0x243F),
      (0x244B, 0x245F), (0x2B74, 0x2B75), (0x2B96, 0x2B96), (0x2CF4, 0x2CF8), (0x2D26, 0x2D26),
      (0x2D28, 0x2D2C), (0x2D2E, 0x2D2F), (0x2D68, 0x2D6E), (0x2D71, 0x2D7E), (0x2D97, 0x2D9F),
      (0x2DA7, 0x2DA7), (0x2DAF, 0x2DAF), (0x2DB7, 0x2DB7), (0x2DBF, 0x2DBF), (0x2DC7, 0x2DC7),
      (0x2DCF, 0x2DCF), (0x2DD7, 0x2DD7), (0x2DDF, 0x2DDF), (0x2E5E, 0x2E7F), (0x2E9A, 0x2E9A),
      (0x2EF4, 0x2EFF), (0x2FD6, 0x2FEF), (0x2FFC, 0x3000), (0x3040, 0x3040), (0x3097, 0x3098),
      (0x3100, 0x3104), (0x3130, 0x3130), (0x318F, 0x318F), (0x31E4, 0x31EF), (0x321F, 0x321F),
      (0xA48D, 0xA48F), (0xA4C7, 0xA4CF), (0xA62C, 0xA63F), (0xA6F8, 0xA6FF), (0xA7CB, 0xA7CF),
      (0xA7D2, 0xA7D2), (0xA7D4, 0xA7D4), (0xA7DA, 0xA7F1), (0xA82D, 0xA82F), (0xA83A, 0xA83F),
      (0xA878, 0xA87F), (0xA8C6, 0xA8CD), (0xA8DA, 0xA8DF), (0xA954, 0xA95E), (0xA97D, 0xA97F),
      (0xA9CE, 0xA9CE), (0xA9DA, 0xA9DD), (0xA9FF, 0xA9FF), (0xAA37, 0xAA3F), (0xAA4E, 0xAA4F),
      (0xAA5A, 0xAA5B), (0xAAC3, 0xAADA), (0xAAF7, 0xAB00), (0xAB07, 0xAB08), (0xAB0F, 0xAB10),
      (0xAB17, 0xAB1F), (0xAB27, 0xAB27), (0xAB2F, 0xAB2F), (0xAB6C, 0xAB6F), (0xABEE, 0xABEF),
      (0xABFA, 0xABFF), (0xD7A4, 0xD7AF), (0xD7C7, 0xD7CA), (0xD7FC, 0xF8FF), (0xFA6E, 0xFA6F),
      (0xFADA, 0xFAFF), (0xFB07, 0xFB12), (0xFB18, 0xFB1C), (0xFB37, 0xFB37), (0xFB3D, 0xFB3D),
      (0xFB3F, 0xFB3F), (0xFB42, 0xFB42), (0xFB45, 0xFB45), (0xFBC3, 0xFBD2), (0xFD90, 0xFD91),
      (0xFDC8, 0xFDCE), (0xFDD0, 0xFDEF), (0xFE1A, 0xFE1F), (0xFE53, 0xFE53), (0xFE67, 0xFE67),
      (0xFE6C, 0xFE6F), (0xFE75, 0xFE75), (0xFEFD, 0xFF00), (0xFFBF, 0xFFC1), (0xFFC8, 0xFFC9),
      (0xFFD0, 0xFFD1), (0xFFD8, 0xFFD9), (0xFFDD, 0xFFDF), (0xFFE7, 0xFFE7), (0xFFEF, 0xFFFB),
      (0xFFFE, 0xFFFF), (0x1000C, 0x1000C), (0x10027, 0x10027), (0x1003B, 0x1003B), (0x1003E, 0x1003E),
      (0x1004E, 0x1004F), (0x1005E, 0x1007F), (0x100FB, 0x100FF), (0x10103, 0x10106), (0x10134, 0x10136),
      (0x1018F, 0x1018F), (0x1019D, 0x1019F), (0x101A1, 0x101CF), (0x101FE, 0x1027F), (0x1029D, 0x1029F),
      (0x102D1, 0x102DF), (0x102FC, 0x102FF), (0x10324, 0x1032C), (0x1034B, 0x1034F), (0x1037B, 0x1037F),
      (0x1039E, 0x1039E), (0x103C4, 0x103C7), (0x103D6, 0x103FF), (0x1049E, 0x1049F), (0x104AA, 0x104AF),
      (0x104D4, 0x104D7), (0x104FC, 0x104FF), (0x10528, 0x1052F), (0x10564, 0x1056E), (0x1057B, 0x1057B),
      (0x1058B, 0x1058B), (0x10593, 0x10593), (0x10596, 0x10596), (0x105A2, 0x105A2), (0x105B2, 0x105B2),
      (0x105BA, 0x105BA), (0x105BD, 0x105FF), (0x10737, 0x1073F), (0x10756, 0x1075F), (0x10768, 0x1077F),
      (0x10786, 0x10786), (0x107B1, 0x107B1), (0x107BB, 0x107FF), (0x10806, 0x10807), (0x10809, 0x10809),
      (0x10836, 0x10836), (0x10839, 0x1083B), (0x1083D, 0x1083E), (0x10856, 0x10856), (0x1089F, 0x108A6),
      (0x108B0, 0x108DF), (0x108F3, 0x108F3), (0x108F6, 0x108FA), (0x1091C, 0x1091E), (0x1093A, 0x1093E),
      (0x10940, 0x1097F), (0x109B8, 0x109BB), (0x109D0, 0x109D1), (0x10A04, 0x10A04), (0x10A07, 0x10A0B),
      (0x10A14, 0x10A14), (0x10A18, 0x10A18), (0x10A36, 0x10A37), (0x10A3B, 0x10A3E), (0x10A49, 0x10A4F),
      (0x10A59, 0x10A5F), (0x10AA0, 0x10ABF), (0x10AE7, 0x10AEA), (0x10AF7, 0x10AFF), (0x10B36, 0x10B38),
      (0x10B56, 0x10B57), (0x10B73, 0x10B77), (0x10B92, 0x10B98), (0x10B9D, 0x10BA8), (0x10BB0, 0x10BFF),
      (0x10C49, 0x10C7F), (0x10CB3, 0x10CBF), (0x10CF3, 0x10CF9), (0x10D28, 0x10D2F), (0x10D3A, 0x10E5F),
      (0x10E7F, 0x10E7F), (0x10EAA, 0x10EAA), (0x10EAE, 0x10EAF), (0x10EB2, 0x10EFF), (0x10F28, 0x10F2F),
      (0x10F5A, 0x10F6F), (0x10F8A, 0x10FAF), (0x10FCC, 0x10FDF), (0x10FF7, 0x10FFF), (0x1104E, 0x11051),
      (0x11076, 0x1107E), (0x110BD, 0x110BD), (0x110C3, 0x110CF), (0x110E9, 0x110EF), (0x110FA, 0x110FF),
      (0x11135, 0x11135), (0x11148, 0x1114F), (0x11177, 0x1117F), (0x111E0, 0x111E0), (0x111F5, 0x111FF),
      (0x11212, 0x11212), (0x1123F, 0x1127F), (0x11287, 0x11287), (0x11289, 0x11289), (0x1128E, 0x1128E),
      (0x1129E, 0x1129E), (0x112AA, 0x112AF), (0x112EB, 0x112EF), (0x112FA, 0x112FF), (0x11304, 0x11304),
      (0x1130D, 0x1130E), (0x11311, 0x11312), (0x11329, 0x11329), (0x11331, 0x11331), (0x11334, 0x11334),
      (0x1133A, 0x1133A), (0x11345, 0x11346), (0x11349, 0x1134A), (0x1134E, 0x1134F), (0x11351, 0x11356),
      (0x11358, 0x1135C), (0x11364, 0x11365), (0x1136D, 0x1136F), (0x11375, 0x113FF), (0x1145C, 0x1145C),
      (0x11462, 0x1147F), (0x114C8, 0x114CF), (0x114DA, 0x1157F), (0x115B6, 0x115B7), (0x115DE, 0x115FF),
      (0x11645, 0x1164F), (0x1165A, 0x1165F), (0x1166D, 0x1167F), (0x116BA, 0x116BF), (0x116CA, 0x116FF),
      (0x1171B, 0x1171C), (0x1172C, 0x1172F), (0x11747, 0x117FF), (0x1183C, 0x1189F), (0x118F3, 0x118FE),
      (0x11907, 0x11908), (0x1190A, 0x1190B), (0x11914, 0x11914), (0x11917, 0x11917), (0x11936, 0x11936),
      (0x11939, 0x1193A), (0x11947, 0x1194F), (0x1195A, 0x1199F), (0x119A8, 0x119A9), (0x119D8, 0x119D9),
      (0x119E5, 0x119FF), (0x11A48, 0x11A4F), (0x11AA3, 0x11AAF), (0x11AF9, 0x11BFF), (0x11C09, 0x11C09),
      (0x11C37, 0x11C37), (0x11C46, 0x11C4F), (0x11C6D, 0x11C6F), (0x11C90, 0x11C91), (0x11CA8, 0x11CA8),
      (0x11CB7, 0x11CFF), (0x11D07, 0x11D07), (0x11D0A, 0x11D0A), (0x11D37, 0x11D39), (0x11D3B, 0x11D3B),
      (0x11D3E, 0x11D3E), (0x11D48, 0x11D4F), (0x11D5A, 0x11D5F), (0x11D66, 0x11D66), (0x11D69, 0x11D69),
      (0x11D8F, 0x11D8F), (0x11D92, 0x11D92), (0x11D99, 0x11D9F), (0x11DAA, 0x11EDF), (0x11EF9, 0x11FAF),
      (0x11FB1, 0x11FBF), (0x11FF2, 0x11FFE), (0x1239A, 0x123FF), (0x1246F, 0x1246F), (0x12475, 0x1247F),
      (0x12544, 0x12F8F), (0x12FF3, 0x12FFF), (0x1342F, 0x143FF), (0x14647, 0x167FF), (0x16A39, 0x16A3F),
      (0x16A5F, 0x16A5F), (0x16A6A, 0x16A6D), (0x16ABF, 0x16ABF), (0x16ACA, 0x16ACF), (0x16AEE, 0x16AEF),
      (0x16AF6, 0x16AFF), (0x16B46, 0x16B4F), (0x16B5A, 0x16B5A), (0x16B62, 0x16B62), (0x16B78, 0x16B7C),
      (0x16B90, 0x16E3F), (0x16E9B, 0x16EFF), (0x16F4B, 0x16F4E), (0x16F88, 0x16F8E), (0x16FA0, 0x16FDF),
      (0x16FE5, 0x16FEF), (0x16FF2, 0x16FFF), (0x187F8, 0x187FF), (0x18CD6, 0x18CFF), (0x18D09, 0x1AFEF),
      (0x1AFF4, 0x1AFF4), (0x1AFFC, 0x1AFFC), (0x1AFFF, 0x1AFFF), (0x1B123, 0x1B14F), (0x1B153, 0x1B163),
      (0x1B168, 0x1B16F), (0x1B2FC, 0x1BBFF), (0x1BC6B, 0x1BC6F), (0x1BC7D, 0x1BC7F), (0x1BC89, 0x1BC8F),
      (0x1BC9A, 0x1BC9B), (0x1BCA0, 0x1CEFF), (0x1CF2E, 0x1CF2F), (0x1CF47, 0x1CF4F), (0x1CFC4, 0x1CFFF),
      (0x1D0F6, 0x1D0FF), (0x1D127, 0x1D128), (0x1D173, 0x1D17A), (0x1D1EB, 0x1D1FF), (0x1D246, 0x1D2DF),
      (0x1D2F4, 0x1D2FF), (0x1D357, 0x1D35F), (0x1D379, 0x1D3FF), (0x1D455, 0x1D455), (0x1D49D, 0x1D49D),
      (0x1D4A0, 0x1D4A1), (0x1D4A3, 0x1D4A4), (0x1D4A7, 0x1D4A8), (0x1D4AD, 0x1D4AD), (0x1D4BA, 0x1D4BA),
      (0x1D4BC, 0x1D4BC), (0x1D4C4, 0x1D4C4), (0x1D506, 0x1D506), (0x1D50B, 0x1D50C), (0x1D515, 0x1D515),
      (0x1D51D, 0x1D51D), (0x1D53A, 0x1D53A), (0x1D53F, 0x1D53F), (0x1D545, 0x1D545), (0x1D547, 0x1D549),
      (0x1D551, 0x1D551), (0x1D6A6, 0x1D6A7), (0x1D7CC, 0x1D7CD), (0x1DA8C, 0x1DA9A), (0x1DAA0, 0x1DAA0),
      (0x1DAB0, 0x1DEFF), (0x1DF1F, 0x1DFFF), (0x1E007, 0x1E007), (0x1E019, 0x1E01A), (0x1E022, 0x1E022),
      (0x1E025, 0x1E025), (0x1E02B, 0x1E0FF), (0x1E12D, 0x1E12F), (0x1E13E, 0x1E13F), (0x1E14A, 0x1E14D),
      (0x1E150, 0x1E28F), (0x1E2AF, 0x1E2BF), (0x1E2FA, 0x1E2FE), (0x1E300, 0x1E7DF), (0x1E7E7, 0x1E7E7),
      (0x1E7EC, 0x1E7EC), (0x1E7EF, 0x1E7EF), (0x1E7FF, 0x1E7FF), (0x1E8C5, 0x1E8C6), (0x1E8D7, 0x1E8FF),
      (0x1E94C, 0x1E94F), (0x1E95A, 0x1E95D), (0x1E960, 0x1EC70), (0x1ECB5, 0x1ED00), (0x1ED3E, 0x1EDFF),
      (0x1EE04, 0x1EE04), (0x1EE20, 0x1EE20), (0x1EE23, 0x1EE23), (0x1EE25, 0x1EE26), (0x1EE28, 0x1EE28),
      (0x1EE33, 0x1EE33), (0x1EE38, 0x1EE38), (0x1EE3A, 0x1EE3A), (0x1EE3C, 0x1EE41), (0x1EE43, 0x1EE46),
      (0x1EE48, 0x1EE48), (0x1EE4A, 0x1EE4A), (0x1EE4C, 0x1EE4C), (0x1EE50, 0x1EE50), (0x1EE53, 0x1EE53),
      (0x1EE55, 0x1EE56), (0x1EE58, 0x1EE58), (0x1EE5A, 0x1EE5A), (0x1EE5C, 0x1EE5C), (0x1EE5E, 0x1EE5E),
      (0x1EE60, 0x1EE60), (0x1EE63, 0x1EE63), (0x1EE65, 0x1EE66), (0x1EE6B, 0x1EE6B), (0x1EE73, 0x1EE73),
      (0x1EE78, 0x1EE78), (0x1EE7D, 0x1EE7D), (0x1EE7F, 0x1EE7F), (0x1EE8A, 0x1EE8A), (0x1EE9C, 0x1EEA0),
      (0x1EEA4, 0x1EEA4), (0x1EEAA, 0x1EEAA), (0x1EEBC, 0x1EEEF), (0x1EEF2, 0x1EFFF), (0x1F02C, 0x1F02F),
      (0x1F094, 0x1F09F), (0x1F0AF, 0x1F0B0), (0x1F0C0, 0x1F0C0), (0x1F0D0, 0x1F0D0), (0x1F0F6, 0x1F0FF),
      (0x1F1AE, 0x1F1E5), (0x1F203, 0x1F20F), (0x1F23C, 0x1F23F), (0x1F249, 0x1F24F), (0x1F252, 0x1F25F),
      (0x1F266, 0x1F2FF), (0x1F6D8, 0x1F6DC), (0x1F6ED, 0x1F6EF), (0x1F6FD, 0x1F6FF), (0x1F774, 0x1F77F),
      (0x1F7D9, 0x1F7DF), (0x1F7EC, 0x1F7EF), (0x1F7F1, 0x1F7FF), (0x1F80C, 0x1F80F), (0x1F848, 0x1F84F),
      (0x1F85A, 0x1F85F), (0x1F888, 0x1F88F), (0x1F8AE, 0x1F8AF), (0x1F8B2, 0x1F8FF), (0x1FA54, 0x1FA5F),
      (0x1FA6E, 0x1FA6F), (0x1FA75, 0x1FA77), (0x1FA7D, 0x1FA7F), (0x1FA87, 0x1FA8F), (0x1FAAD, 0x1FAAF),
      (0x1FABB, 0x1FABF), (0x1FAC6, 0x1FACF), (0x1FADA, 0x1FADF), (0x1FAE8, 0x1FAEF), (0x1FAF7, 0x1FAFF),
      (0x1FB93, 0x1FB93), (0x1FBCB, 0x1FBEF), (0x1FBFA, 0x1FFFF), (0x2A6E0, 0x2A6FF), (0x2B739, 0x2B73F),
      (0x2B81E, 0x2B81F), (0x2CEA2, 0x2CEAF), (0x2EBE1, 0x2F7FF), (0x2FA1E, 0x2FFFF), (0x3134B, 0xE00FF),
      (0xE01F0, 0x10FFFF)]"

definition str_isprintable :: "nat \<Rightarrow> bool" where
  "str_isprintable ch = (find (\<lambda>(lo, hi). lo \<le> ch \<and> ch \<le> hi) unprintable = None)"

definition DEFAULTS :: args where
  "DEFAULTS =
     \<lparr>ignorewarning = False, filter' = None, jsonhidepw = False,
      int_literal = int_of_str, int_decimal = int_of_bytes,
      isprintable = str_isprintable\<rparr>"

section \<open>Example inputs\<close>

text \<open>
  Decoded configuration images used in the examples below. \<open>image_8_1_0_7\<close> is the head of
  an image whose version field (four bytes at offset 8, little-endian) holds 0x08010007;
  \<open>image_5_9_0\<close> one with version 0x05090000, older than every entry of the registry.
  \<open>image_platform_2\<close> is a 4096-byte image of version 8.2.0.4 whose \<open>config_version\<close> byte
  at offset 0xF36 is 2. \<open>image_size_4097\<close> is a 4097-byte image of version 8.1.0.6 whose
  \<open>cfg_size\<close> field (two bytes at offset 2) holds 4097, one more than the 4096 bytes of its
  schema.
\<close>

definition image_8_1_0_7 :: "byte list" where
  "image_8_1_0_7 = [0, 0, 0, 0, 0, 0, 0, 0, 0x07, 0x00, 0x01, 0x08]"

definition image_5_9_0 :: "byte list" where
  "image_5_9_0 = [0, 0, 0, 0, 0, 0, 0, 0, 0x00, 0x00, 0x09, 0x05]"

definition image_platform_2 :: "byte list" where
  "image_platform_2 =
     replicate 8 0 @ [0x04, 0x00, 0x02, 0x08] @ replicate 3882 0 @ [2] @ replicate 201 0"

definition image_size_4097 :: "byte list" where
  "image_size_4097 =
     [0, 0, 0x01, 0x10, 0, 0, 0, 0, 0x06, 0x00, 0x01, 0x08] @ replicate 4085 0"

text \<open>
  A file of five bytes that is not JSON: its size is no schema size, with or without the
  four bytes of the marker.
\<close>

definition five_byte_file :: file_probe where
  "five_byte_file =
     \<lparr>open_ok = True, json_loaded = RaisedValueError, getsize = Some 5,
      read_rb = Some [1, 2, 3, 4, 5]\<rparr>"

text \<open>
  The password field of the MQTT broker, from \<open>SETTING_5_10_0\<close>:
  \<^verbatim>\<open>
  'mqtt_pwd': (Platform.ALL, '33s', 0x24E, (None, None, ('MQTT', '"MqttPassword {}".format($)')), (passwordread,passwordwrite) ),
  \<close>
  \<open>image_mqtt_secret\<close> is a 4096-byte image that stores the password \<open>secret\<close> there,
  \<open>image_mqtt_masked\<close> the same image with eight asterisks in its place.
\<close>

definition mqtt_pwd_fielddef :: fielddef where
  "mqtt_pwd_fielddef =
     FieldDef Platform_ALL (Struct (Chars 33)) 0x24E 0 0 None [] None (Some ''MQTT'')
       Conv_passwordread Conv_passwordwrite"

definition image_mqtt_secret :: "byte list" where
  "image_mqtt_secret = replicate 0x24E 0 @ map of_char ''secret'' @ replicate 27 0 @ replicate 3473 0"

definition image_mqtt_masked :: "byte list" where
  "image_mqtt_masked = replicate 0x24E 0 @ map of_char ''********'' @ replicate 25 0 @ replicate 3473 0"



text \<open>
  Two bit-packed fields of the 32-bit word \<open>flag\<close> at 0x010, its bits 3 and 4, from the
  group \<open>flag\<close> of \<open>SETTING_5_10_0\<close>:
  \<^verbatim>\<open>
  'mqtt_enabled':  (Platform.ALL, '<L', (0x010,1, 3), (None, None, ('SetOption', '"SetOption3 {}".format($)')) ),
  'mqtt_response': (Platform.ALL, '<L', (0x010,1, 4), (None, None, ('SetOption', '"SetOption4 {}".format($)')) ),
  \<close>
  \<open>image_flag_ones\<close> is the head of an image whose word \<open>flag\<close> has all bits set,
  \<open>image_flag_five\<close> one whose word \<open>flag\<close> is 5 and \<open>image_flag_twentyone\<close> one
  whose word \<open>flag\<close> is 21.
\<close>

definition mqtt_enabled_fielddef :: fielddef where
  "mqtt_enabled_fielddef =
     FieldDef Platform_ALL (Struct (Scalar LittleEndian FL)) 0x010 1 3 None [] None
       (Some ''SetOption'') ConvNone ConvNone"

definition mqtt_response_fielddef :: fielddef where
  "mqtt_response_fielddef =
     FieldDef Platform_ALL (Struct (Scalar LittleEndian FL)) 0x010 1 4 None [] None
       (Some ''SetOption'') ConvNone ConvNone"

definition image_flag_ones :: "byte list" where
  "image_flag_ones = replicate 16 0 @ [0xFF, 0xFF, 0xFF, 0xFF]"

definition image_flag_five :: "byte list" where
  "image_flag_five = replicate 16 0 @ [0x05, 0x00, 0x00, 0x00]"

definition image_flag_twentyone :: "byte list" where
  "image_flag_twentyone = replicate 16 0 @ [0x15, 0x00, 0x00, 0x00]"

section \<open>Properties of the XOR stream\<close>

lemma foldl_snoc_map: "foldl (\<lambda>acc i. acc @ [f i]) a xs = a @ map f xs"
  by (induction xs arbitrary: a) auto

lemma int_255_mask: "(255::int) = mask 8"
  by (simp add: mask_eq_exp_minus_1)

lemma xor_byte: "(word_of_int ((uint (b::byte) XOR k) AND 0xff) :: byte) = b XOR word_of_int k"
  unfolding int_255_mask by (rule bit_word_eqI) (auto simp: bit_simps)

lemma decrypt_encrypt_map:
  "decrypt_encrypt obj =
     take 2 obj @ map (\<lambda>i. obj ! i XOR word_of_int (CONFIG_FILE_XOR + int i)) [2..<length obj]"
  by (simp add: decrypt_encrypt_def foldl_snoc_map xor_byte)

lemma length_decrypt_encrypt: "length (decrypt_encrypt obj) = length obj"
  by (simp add: decrypt_encrypt_map)

lemma decrypt_encrypt_nth_lo:
  "i < 2 \<Longrightarrow> i < length obj \<Longrightarrow> decrypt_encrypt obj ! i = obj ! i"
  by (simp add: decrypt_encrypt_map nth_append)

lemma decrypt_encrypt_nth_hi:
  "2 \<le> i \<Longrightarrow> i < length obj \<Longrightarrow>
   decrypt_encrypt obj ! i = obj ! i XOR word_of_int (CONFIG_FILE_XOR + int i)"
proof -
  assume a: "2 \<le> i" "i < length obj"
  then have "[2..<length obj] ! (i - 2) = i" by (simp add: nth_upt)
  with a show ?thesis by (simp add: decrypt_encrypt_map nth_append min_def)
qed

lemma decrypt_encrypt_involution: "decrypt_encrypt (decrypt_encrypt obj) = obj"
proof (rule nth_equalityI)
  show "length (decrypt_encrypt (decrypt_encrypt obj)) = length obj"
    by (simp add: length_decrypt_encrypt)
next
  fix i assume "i < length (decrypt_encrypt (decrypt_encrypt obj))"
  then have i: "i < length obj" by (simp add: length_decrypt_encrypt)
  show "decrypt_encrypt (decrypt_encrypt obj) ! i = obj ! i"
  proof (cases "i < 2")
    case True
    with i show ?thesis by (simp add: decrypt_encrypt_nth_lo length_decrypt_encrypt)
  next
    case False
    with i show ?thesis
      by (simp add: decrypt_encrypt_nth_hi length_decrypt_encrypt xor.assoc)
  qed
qed

lemma key_byte:
  "(word_of_int (CONFIG_FILE_XOR + int i) :: byte) = word_of_nat ((0x5A + i) mod 256)"
proof -
  have "(word_of_nat ((0x5A + i) mod 256) :: byte) = word_of_nat (0x5A + i)"
    unfolding word_of_nat_eq_iff by (simp add: take_bit_eq_mod)
  then show ?thesis by (simp add: CONFIG_FILE_XOR_def)
qed

text \<open>
  Claim C3. For every byte sequence \<open>b\<close> of length at least 2, applying
  \<open>decrypt_encrypt\<close> twice gives \<open>b\<close> back; \<open>decrypt_encrypt\<close> keeps the length, leaves
  the first two bytes as they are, and maps the byte at every index \<open>i \<ge> 2\<close> to
  \<open>b[i] XOR ((0x5A + i) mod 256)\<close>.
\<close>

theorem decrypt_encrypt_xor_stream:
  assumes "2 \<le> length b"
  shows "decrypt_encrypt (decrypt_encrypt b) = b
       \<and> length (decrypt_encrypt b) = length b
       \<and> decrypt_encrypt b ! 0 = b ! 0 \<and> decrypt_encrypt b ! 1 = b ! 1
       \<and> (\<forall>i. 2 \<le> i \<and> i < length b \<longrightarrow>
              decrypt_encrypt b ! i = b ! i XOR word_of_nat ((0x5A + i) mod 256))"
proof -
  have "decrypt_encrypt b ! i = b ! i XOR word_of_nat ((0x5A + i) mod 256)"
    if "2 \<le> i" "i < length b" for i
    using decrypt_encrypt_nth_hi [OF that] by (simp only: key_byte)
  moreover from assms have "0 < length b" "1 < length b"
    by linarith+
  then have "decrypt_encrypt b ! 0 = b ! 0" "decrypt_encrypt b ! 1 = b ! 1"
    by (simp_all only: decrypt_encrypt_map nth_append length_take) simp_all
  ultimately show ?thesis
    by (simp only: decrypt_encrypt_involution length_decrypt_encrypt) blast
qed

theorem decrypt_encrypt_xor_stream_witness:
  "decrypt_encrypt (decrypt_encrypt [1, 2, 3, 4, 5]) = [1, 2, 3, 4, 5]
   \<and> decrypt_encrypt [1, 2, 3, 4, 5] ! 0 = 1 \<and> decrypt_encrypt [1, 2, 3, 4, 5] ! 1 = 2
   \<and> decrypt_encrypt [1, 2, 3, 4, 5] ! 2 = 3 XOR word_of_nat ((0x5A + 2) mod 256)"
  using decrypt_encrypt_xor_stream [of "[1, 2, 3, 4, 5]"] by simp

section \<open>Properties of the validator\<close>

text \<open>
  Claim C8. For every field definition and every value, \<open>validate_value\<close> returns
  \<open>True\<close> when the value equals 0, whatever the validator of the field is (also when the
  validator would reject 0).
\<close>

theorem validate_value_zero:
  "py_eq_int v 0 \<Longrightarrow> validate_value v fielddef = True"
  by (simp add: validate_value_def)

theorem validate_value_zero_witness:
  "py_eq_int (PInt 0) 0
   \<and> validate_value (PInt 0)
        (FieldDef Platform_ALL (Struct (Scalar NoPrefix FB)) 0x09E 0 0 None []
           (Some (\<lambda>v. Return False)) (Some ''Management'') ConvNone ConvNone) = True"
  using validate_value_zero [of "PInt 0"] by simp

text \<open>
  Claim C10. For every value that is not 0 and on which the validator of the field raises
  an exception, \<open>validate_value\<close> returns \<open>False\<close>: the exception does not reach the
  caller (\<open>validate_value\<close> is a total function to \<open>bool\<close>).
\<close>

theorem validate_value_raises:
  "\<not> py_eq_int v 0 \<Longrightarrow> validate fielddef = Some f \<Longrightarrow> f v = Raise e \<Longrightarrow>
   validate_value v fielddef = False"
  by (simp add: validate_value_def)

theorem validate_value_raises_witness:
  "\<not> py_eq_int (PInt 5) 0
   \<and> validate_value (PInt 5)
        (FieldDef Platform_ALL (Struct (Scalar NoPrefix FB)) 0x09E 0 0 None []
           (Some (\<lambda>v. Raise TypeError)) (Some ''Management'') ConvNone ConvNone) = False"
  using validate_value_raises [of "PInt 5" _ "\<lambda>v. Raise TypeError" TypeError] by simp

section \<open>Properties of the schema registry\<close>

lemma bitsread_0_0: "bitsread v 0 0 = v"
  by (simp add: bitsread_def)

lemma get_field_scalar_raw:
  assumes "platform' fd AND pb \<noteq> 0" "arraydef fd = []" "format' fd = Struct (Scalar ord c)"
    "bits fd = 0" "bitshift fd = 0" "strindex fd = None" "\<not> is_passwordread (readconverter fd)"
  shows "get_field ARGS dobj pb fd True 0 True s =
     (case unpack_from_int ord c dobj (baseaddr fd) of
        None \<Rightarrow> (Raise struct_error, s)
      | Some v \<Rightarrow> (Return (PInt v), s))"
proof (cases fd)
  case (FieldDef p fmt ba nb sh si ad v g rc wc)
  with assms show ?thesis
    by (cases c; cases ord) (auto simp: get_field.simps get_fieldvalue_def get_fieldvalue_ints_def
        readwrite_converter_def bitsread_0_0 unpack_from_int_def split: option.splits)
qed

lemma read_version:
  "get_field ARGS dobj Platform_ALL version_fielddef True 0 True s =
     (case unpack_from_int LittleEndian FL dobj 8 of
        None \<Rightarrow> (Raise struct_error, s)
      | Some v \<Rightarrow> (Return (PInt v), s))"
  by (subst get_field_scalar_raw [where ord = LittleEndian and c = FL])
     (simp_all add: version_fielddef_def Platform_ALL_def)

lemma read_cfg_size:
  "get_field ARGS dobj Platform_ALL cfg_size_fielddef True 0 True s =
     (case unpack_from_int LittleEndian FH dobj 2 of
        None \<Rightarrow> (Raise struct_error, s)
      | Some v \<Rightarrow> (Return (PInt v), s))"
  by (subst get_field_scalar_raw [where ord = LittleEndian and c = FH])
     (simp_all add: cfg_size_fielddef_def Platform_ALL_def)

lemma read_config_version:
  "get_field ARGS dobj Platform_ALL config_version_fielddef True 0 True s =
     (case unpack_from_int NoPrefix FB dobj 0xF36 of
        None \<Rightarrow> (Raise struct_error, s)
      | Some v \<Rightarrow> (Return (PInt v), s))"
  by (subst get_field_scalar_raw [where ord = NoPrefix and c = FB])
     (simp_all add: config_version_fielddef_def Platform_ALL_def)

lemma exit_True:
  "exit' status typ True s =
     (SystemExit status,
      message None None
        ((message (Some (if status \<noteq> OK then typ else INFO)) (Some status) s)\<lparr>EXIT_CODE := status\<rparr>))"
  by (simp add: exit'_def Let_def)

lemma find_sorted_reverse_None:
  "find (\<lambda>cfg. fst cfg \<le> v) (sorted_reverse settings) = None \<longleftrightarrow> (\<forall>cfg\<in>set settings. v < fst cfg)"
  by (force simp: find_None_iff sorted_reverse_def not_le)

lemma find_sorted_reverse_Some:
  assumes "find (\<lambda>cfg. fst cfg \<le> v) (sorted_reverse settings) = Some cfg"
  shows "cfg \<in> set settings \<and> fst cfg \<le> (v::int)
       \<and> (\<forall>c\<in>set settings. fst c \<le> v \<longrightarrow> fst c \<le> fst cfg)"
proof -
  let ?ys = "sorted_reverse settings"
  have srt: "sorted (map (\<lambda>cfg. - fst cfg) ?ys)" by (simp add: sorted_reverse_def)
  from assms obtain i where i: "i < length ?ys" "fst (?ys ! i) \<le> v" "cfg = ?ys ! i"
    "\<forall>j<i. \<not> fst (?ys ! j) \<le> v"
    unfolding find_Some_iff by blast
  have set: "set ?ys = set settings" by (simp add: sorted_reverse_def)
  have "fst c \<le> fst cfg" if c: "c \<in> set settings" "fst c \<le> v" for c
  proof -
    from c set obtain k where k: "k < length ?ys" "c = ?ys ! k" by (metis in_set_conv_nth)
    with c i have "i \<le> k" by (metis not_le_imp_less)
    with srt k have "(map (\<lambda>cfg. - fst cfg) ?ys) ! i \<le> (map (\<lambda>cfg. - fst cfg) ?ys) ! k"
      by (intro sorted_nth_mono) auto
    with i k show ?thesis by simp
  qed
  moreover from i set have "cfg \<in> set settings" by (metis nth_mem)
  ultimately show ?thesis using i by blast
qed

text \<open>The registry of the source is written newest first, so sorting leaves it as it is.\<close>

lemma sorted_SETTINGS: "sorted (map (\<lambda>cfg. - fst cfg) SETTINGS)"
  unfolding SETTINGS_def list.map fst_conv sorted2 sorted1 by simp

lemma sorted_reverse_SETTINGS: "sorted_reverse SETTINGS = SETTINGS"
  unfolding sorted_reverse_def by (rule sort_key_id_if_sorted) (rule sorted_SETTINGS)

lemma sizes_SETTINGS: "set (get_templatesizes SETTINGS) = {0x1000, 0xe00, 0xa00, 0x670}"
  by (simp add: get_templatesizes_def SETTINGS_def)

lemma map_of_SETTING_6_6_0_10:
  "map_of SETTING_6_6_0_10 ''config_version'' = None"
  "map_of SETTING_6_6_0_10 ''cfg_size'' = Some cfg_size_fielddef"
  by (simp_all add: SETTING_6_6_0_10_def SETTING_6_0_0_def SETTING_5_10_0_def)

lemma map_of_SETTING_8_2_0_4:
  "map_of SETTING_8_2_0_4 ''config_version'' = Some config_version_fielddef"
  by (simp add: SETTING_8_2_0_4_def SETTING_6_6_0_10_def SETTING_6_0_0_def SETTING_5_10_0_def)

text \<open>
  Claim C5. Let \<open>v\<close> be the version number of a decoded binary. When no entry of the
  registry has a version number \<open>\<le> v\<close> (also when the registry is empty),
  \<open>get_config_info\<close> leaves with the exit status \<open>UNSUPPORTED_VERSION\<close>. Whenever it
  returns, the entry it returns is an entry of the registry with the greatest version
  number \<open>\<le> v\<close>, never another one. When an entry qualifies, it returns that entry as
  soon as the platform identification, which runs first, has returned.
\<close>

theorem get_config_info_resolve:
  assumes "unpack_from_int LittleEndian FL decode_cfg 8 = Some v"
  shows "((\<forall>cfg\<in>set settings. v < fst cfg) \<longrightarrow>
            fst (get_config_info ARGS settings decode_cfg s) = SystemExit UNSUPPORTED_VERSION)
       \<and> (\<forall>info s'. get_config_info ARGS settings decode_cfg s = (Return info, s') \<longrightarrow>
            version info = v
            \<and> (template_version info, template_size info, template info) \<in> set settings
            \<and> template_version info \<le> v
            \<and> (\<forall>cfg\<in>set settings. fst cfg \<le> v \<longrightarrow> fst cfg \<le> template_version info))
       \<and> ((\<exists>cfg\<in>set settings. fst cfg \<le> v) \<longrightarrow>
            (\<forall>p s'. identify_platform ARGS settings decode_cfg v s = (Return p, s') \<longrightarrow>
               (\<exists>cfg\<in>set settings. fst cfg \<le> v
                  \<and> (\<forall>c\<in>set settings. fst c \<le> v \<longrightarrow> fst c \<le> fst cfg)
                  \<and> get_config_info ARGS settings decode_cfg s =
                      (Return \<lparr>platform = p, version = v, template_version = fst cfg,
                               template_size = fst (snd cfg), template = snd (snd cfg)\<rparr>, s'))))"
proof (intro conjI impI allI)
  assume none: "\<forall>cfg\<in>set settings. v < fst cfg"
  then have f: "find (\<lambda>cfg. fst cfg \<le> v) (sorted_reverse settings) = None"
    by (simp add: find_sorted_reverse_None)
  then have "identify_platform ARGS settings decode_cfg v s = (Return 0, s)"
    by (simp add: identify_platform_def)
  with f assms show "fst (get_config_info ARGS settings decode_cfg s) = SystemExit UNSUPPORTED_VERSION"
    by (simp add: get_config_info_def read_version exit_True)
next
  fix info s'
  assume r: "get_config_info ARGS settings decode_cfg s = (Return info, s')"
  from r assms obtain cfg where c: "find (\<lambda>cfg. fst cfg \<le> v) (sorted_reverse settings) = Some cfg"
    and i: "version info = v" "template_version info = fst cfg" "template_size info = fst (snd cfg)"
      "template info = snd (snd cfg)"
    by (auto simp: get_config_info_def read_version exit_True
        split: prod.splits outcome.splits option.splits)
  from find_sorted_reverse_Some [OF c] i
  show "version info = v"
    "(template_version info, template_size info, template info) \<in> set settings"
    "template_version info \<le> v"
    "\<forall>cfg\<in>set settings. fst cfg \<le> v \<longrightarrow> fst cfg \<le> template_version info"
    by auto
next
  fix p s'
  assume ex: "\<exists>cfg\<in>set settings. fst cfg \<le> v"
    and ip: "identify_platform ARGS settings decode_cfg v s = (Return p, s')"
  from ex obtain cfg where c: "find (\<lambda>cfg. fst cfg \<le> v) (sorted_reverse settings) = Some cfg"
    using find_sorted_reverse_None [of v settings]
    by (cases "find (\<lambda>cfg. fst cfg \<le> v) (sorted_reverse settings)") auto
  from c ip assms have "get_config_info ARGS settings decode_cfg s =
      (Return \<lparr>platform = p, version = v, template_version = fst cfg,
               template_size = fst (snd cfg), template = snd (snd cfg)\<rparr>, s')"
    by (simp add: get_config_info_def read_version)
  with find_sorted_reverse_Some [OF c]
  show "\<exists>cfg\<in>set settings. fst cfg \<le> v
                  \<and> (\<forall>c\<in>set settings. fst c \<le> v \<longrightarrow> fst c \<le> fst cfg)
                  \<and> get_config_info ARGS settings decode_cfg s =
                      (Return \<lparr>platform = p, version = v, template_version = fst cfg,
                               template_size = fst (snd cfg), template = snd (snd cfg)\<rparr>, s')"
    by blast
qed

lemma unpack_image_8_1_0_7: "unpack_from_int LittleEndian FL image_8_1_0_7 8 = Some 0x8010007"
  by (simp add: image_8_1_0_7_def unpack_from_int_def decode_int_def)

lemma unpack_image_5_9_0: "unpack_from_int LittleEndian FL image_5_9_0 8 = Some 0x5090000"
  by (simp add: image_5_9_0_def unpack_from_int_def decode_int_def)

lemma find_8010007:
  "find (\<lambda>cfg. fst cfg \<le> 0x8010007) SETTINGS = Some (0x8010006, 0x1000, SETTING_6_6_0_10)"
  by (simp add: SETTINGS_def)

lemma get_config_info_image_8_1_0_7:
  "get_config_info ARGS SETTINGS image_8_1_0_7 s =
     (Return \<lparr>platform = 0, version = 0x8010007, template_version = 0x8010006,
              template_size = 0x1000, template = SETTING_6_6_0_10\<rparr>, s)"
  by (simp add: get_config_info_def identify_platform_def read_version unpack_image_8_1_0_7
      sorted_reverse_SETTINGS find_8010007 map_of_SETTING_6_6_0_10)

lemma all_newer_5_9_0: "\<forall>cfg\<in>set SETTINGS. 0x5090000 < fst cfg"
  by (simp add: SETTINGS_def)

theorem get_config_info_resolve_witness:
  "unpack_from_int LittleEndian FL image_8_1_0_7 8 = Some 0x8010007
   \<and> get_config_info DEFAULTS SETTINGS image_8_1_0_7 initial_state =
       (Return \<lparr>platform = 0, version = 0x8010007, template_version = 0x8010006,
                template_size = 0x1000, template = SETTING_6_6_0_10\<rparr>, initial_state)
   \<and> (0x8010006, 0x1000, SETTING_6_6_0_10) \<in> set SETTINGS
   \<and> unpack_from_int LittleEndian FL image_5_9_0 8 = Some 0x5090000
   \<and> fst (get_config_info DEFAULTS SETTINGS image_5_9_0 initial_state) = SystemExit UNSUPPORTED_VERSION"
  using get_config_info_resolve [OF unpack_image_8_1_0_7, of SETTINGS DEFAULTS initial_state]
    get_config_info_resolve [OF unpack_image_5_9_0, of SETTINGS DEFAULTS initial_state]
    get_config_info_image_8_1_0_7 [of DEFAULTS initial_state] all_newer_5_9_0
    unpack_image_8_1_0_7 unpack_image_5_9_0
  by auto

section \<open>Termination on an out-of-range platform index\<close>

lemma unpack_image_platform_2_version: "unpack_from_int LittleEndian FL image_platform_2 8 = Some 0x8020004"
  by (simp add: image_platform_2_def unpack_from_int_def decode_int_def)

lemma unpack_image_platform_2_platform: "unpack_from_int NoPrefix FB image_platform_2 0xF36 = Some 2"
  by (simp add: image_platform_2_def unpack_from_int_def decode_int_def)

lemma find_8020004:
  "find (\<lambda>cfg. fst cfg \<le> 0x8020004) SETTINGS = Some (0x8020004, 0x1000, SETTING_8_2_0_4)"
  by (simp add: SETTINGS_def)

text \<open>
  Claim C4 says that an out-of-range platform index is a warning after which the platform
  is set to 0 and processing goes on. On the image \<open>image_platform_2\<close> (version 8.2.0.4,
  \<open>config_version\<close> byte 2, with \<open>len(PLATFORMS) = 2\<close>) \<open>get_config_info\<close> writes the
  warning and then leaves through \<open>sys.exit\<close> with the status \<open>INVALID_DATA\<close>, under
  every setting of \<open>ARGS\<close>: the call of \<open>exit_\<close> does not pass \<open>doexit\<close>, so the
  assignment of the default after it is never reached.
\<close>

theorem get_config_info_invalid_platform_exits:
  "get_config_info ARGS SETTINGS image_platform_2 s =
     (SystemExit INVALID_DATA,
      s\<lparr>stderr := stderr s @ [(Some WARNING, Some INVALID_DATA), (None, None)],
        EXIT_CODE := INVALID_DATA\<rparr>)"
  by (simp add: get_config_info_def identify_platform_def read_version read_config_version
      unpack_image_platform_2_version unpack_image_platform_2_platform sorted_reverse_SETTINGS
      find_8020004 map_of_SETTING_8_2_0_4 PLATFORMS_def exit_True message_def)

section \<open>The size check of \<open>bin2mapping\<close>\<close>

lemma unpack_image_size_4097_version: "unpack_from_int LittleEndian FL image_size_4097 8 = Some 0x8010006"
  by (simp add: image_size_4097_def unpack_from_int_def decode_int_def)

lemma unpack_image_size_4097_size: "unpack_from_int LittleEndian FH image_size_4097 2 = Some 4097"
  by (simp add: image_size_4097_def unpack_from_int_def decode_int_def)

lemma find_8010006:
  "find (\<lambda>cfg. fst cfg \<le> 0x8010006) SETTINGS = Some (0x8010006, 0x1000, SETTING_6_6_0_10)"
  by (simp add: SETTINGS_def)

text \<open>
  Claim C1 says that a declared size above the size of the schema is tolerated. On the
  image \<open>image_size_4097\<close> (version 8.1.0.6, schema size 4096, declared size 4097, 4097
  bytes long) \<open>bin2mapping\<close> leaves through \<open>sys.exit\<close> with the status
  \<open>DATA_SIZE_MISMATCH\<close>, under every setting of \<open>ARGS\<close>: the branch commented
  "may be processed" calls \<open>exit_\<close> without \<open>doexit\<close>, as the branch for a smaller size does.
\<close>

theorem bin2mapping_larger_size_exits:
  "length image_size_4097 = 4097
   \<and> bin2mapping ARGS SETTINGS image_size_4097 s =
       (SystemExit DATA_SIZE_MISMATCH,
        s\<lparr>stderr := stderr s @ [(Some ERROR, Some DATA_SIZE_MISMATCH), (None, None)],
          EXIT_CODE := DATA_SIZE_MISMATCH\<rparr>)"
  by (simp add: bin2mapping_def check_size_def get_config_info_def identify_platform_def read_version
      read_cfg_size unpack_image_size_4097_version unpack_image_size_4097_size
      sorted_reverse_SETTINGS find_8010006 map_of_SETTING_6_6_0_10 exit_True message_def)
     (simp add: image_size_4097_def)

section \<open>Properties of the file classifier\<close>

lemma get_filetype_never_UNKNOWN: "get_filetype settings file \<noteq> UNKNOWN"
  by (simp add: get_filetype_def Let_def split: json_load.splits option.splits)

text \<open>
  Claim C2, as stated, fails: the five-byte file above is not valid JSON, its size matches
  no schema size, and \<open>get_filetype\<close> returns \<open>INVALID_JSON\<close>, not \<open>UNKNOWN\<close>.
\<close>

theorem get_filetype_unknown_counterexample:
  "open_ok five_byte_file \<and> json_loaded five_byte_file = RaisedValueError
   \<and> getsize five_byte_file = Some 5
   \<and> 5 \<notin> set (get_templatesizes SETTINGS)
   \<and> int 5 - 4 \<notin> int ` set (get_templatesizes SETTINGS)
   \<and> get_filetype SETTINGS five_byte_file \<noteq> UNKNOWN"
  by (simp add: five_byte_file_def sizes_SETTINGS get_filetype_never_UNKNOWN)

text \<open>
  Claim C2, amended. For every file that can be opened, whose content is not valid JSON
  (\<open>json.load\<close> raises \<open>ValueError\<close>) and whose size matches no known schema size, neither
  exactly nor less the four bytes of the magic marker, \<open>get_filetype\<close> returns
  \<open>INVALID_JSON\<close>, and so never \<open>DMP\<close>.
\<close>

theorem get_filetype_invalid_json:
  assumes "open_ok file" "json_loaded file = RaisedValueError" "getsize file = Some n"
    and "n \<notin> set (get_templatesizes settings)"
    and "int n - 4 \<notin> int ` set (get_templatesizes settings)"
  shows "get_filetype settings file = INVALID_JSON \<and> get_filetype settings file \<noteq> DMP"
  using assms by (simp add: get_filetype_def Let_def)

theorem get_filetype_invalid_json_witness:
  "open_ok five_byte_file \<and> json_loaded five_byte_file = RaisedValueError
   \<and> getsize five_byte_file = Some 5
   \<and> 5 \<notin> set (get_templatesizes SETTINGS)
   \<and> int 5 - 4 \<notin> int ` set (get_templatesizes SETTINGS)
   \<and> get_filetype SETTINGS five_byte_file = INVALID_JSON"
  using get_filetype_invalid_json [of five_byte_file 5 SETTINGS]
  by (simp add: five_byte_file_def sizes_SETTINGS)

section \<open>Restoring a masked password\<close>

lemma split_nul_max_nonempty: "split_nul_max k t \<noteq> []"
  by (induction k t rule: split_nul_max.induct) (auto split: list.splits)

lemma encode_HIDDEN_PASSWORD: "encode HIDDEN_PASSWORD = Some [42, 42, 42, 42, 42, 42, 42, 42]"
  by (simp add: HIDDEN_PASSWORD_def str_def encode_cp_def)

text \<open>The helper finds the mask in a \<open>str\<close>, and never in a \<open>bytes\<close> object.\<close>

lemma passwordwrite_str: "passwordwrite (PStr HIDDEN_PASSWORD) = PNone"
  by (simp add: passwordwrite_def)

lemma passwordwrite_bytes: "passwordwrite (PBytes bs) = PBytes bs"
  by (simp add: passwordwrite_def)

lemma get_fieldvalue_chars_Return:
  assumes "format' fd = Struct (Chars n)" "arraydef fd = []" "strindex fd = None"
    "addr + n \<le> length dobj"
  shows "\<exists>v. get_fieldvalue ARGS fd dobj addr 0 = Return v"
proof (cases fd)
  case (FieldDef p fmt ba nb sh si ad v g rc wc)
  with assms show ?thesis
    by (simp add: get_fieldvalue_def unpack_from_chars_def Let_def split_nul_max_nonempty)
qed

text \<open>
  Every string field without index whose write converter is \<open>passwordwrite\<close>: restoring
  the mask writes the eight asterisks, padded with NUL bytes, over the stored password.
\<close>

lemma set_field_hidden_password_written:
  assumes fd: "format' fd = Struct (Chars n)" "arraydef fd = []" "strindex fd = None"
      "writeconverter fd = Conv_passwordwrite"
    and app: "platform' fd AND platform_bits \<noteq> 0" "is_filtergroup ARGS (group fd)"
    and name: "fieldname \<notin> {''cfg_crc'', ''cfg_crc32'', ''cfg_timestamp'', ''_''}"
    and fits: "9 \<le> n" "baseaddr fd + addroffset + n \<le> length dobj"
  shows "set_field ARGS dobj platform_bits fieldname fd (PStr HIDDEN_PASSWORD) addroffset s =
     (Return (take (baseaddr fd + addroffset) dobj @ [42, 42, 42, 42, 42, 42, 42, 42]
              @ replicate (n - 8) 0 @ drop (baseaddr fd + addroffset + n) dobj), s)"
proof -
  let ?addr = "baseaddr fd + addroffset"
  let ?new = "take ?addr dobj @ [42, 42, 42, 42, 42, 42, 42, 42] @ replicate (n - 8) 0
              @ drop (?addr + n) dobj"
  have conv: "readwrite_converter ARGS (PBytes [42, 42, 42, 42, 42, 42, 42, 42]) fd False False s
      = (Return (PBytes [42, 42, 42, 42, 42, 42, 42, 42]), s)"
    using fd by (simp add: readwrite_converter_def passwordwrite_bytes)
  have str: "set_field_string ARGS dobj fd n (PStr HIDDEN_PASSWORD) addroffset s
      = (Return (PBytes [42, 42, 42, 42, 42, 42, 42, 42], True, False), s)"
    using fd fits by (simp add: set_field_string_def encode_HIDDEN_PASSWORD conv)
  obtain prev where prev: "get_fieldvalue ARGS fd dobj ?addr 0 = Return prev"
    using get_fieldvalue_chars_Return [OF fd(1-3) fits(2)] by blast
  have pack: "pack_into_chars n dobj ?addr (PBytes [42, 42, 42, 42, 42, 42, 42, 42]) = Packed ?new"
    using fits by (simp add: pack_into_chars_def)
  have len: "?addr + n \<le> length ?new" using fits by simp
  obtain cur where cur: "get_fieldvalue ARGS fd ?new ?addr 0 = Return cur"
    using get_fieldvalue_chars_Return [OF fd(1-3) len] by blast
  have store: "set_field_store ARGS dobj fieldname fd addroffset
                 (PBytes [42, 42, 42, 42, 42, 42, 42, 42]) True False s = (Return ?new, s)"
    using fd name prev cur pack by (simp add: set_field_store_def set_fieldvalue_def)
  show ?thesis
    using fd app str store by (simp add: set_field.simps set_field_simple_def)
qed

text \<open>
  Claim C9 says that restoring the mask \<open>'********'\<close> into a password field is found out
  and skipped, so that the stored password stays. On \<open>image_mqtt_secret\<close>, with password
  hiding on, \<open>set_field\<close> returns \<open>image_mqtt_masked\<close>: the asterisks are written over the
  password. \<open>set_field\<close> encodes the restore value before it calls the converter, and
  \<open>passwordwrite\<close> compares the resulting \<open>bytes\<close> with the \<open>str\<close>
  \<open>HIDDEN_PASSWORD\<close>, which are never equal; the branch \<open>skip = True\<close> that the source
  has for this case is not reached.
\<close>

theorem set_field_masked_password_overwrites:
  "set_field (DEFAULTS\<lparr>jsonhidepw := True\<rparr>) image_mqtt_secret 1 ''mqtt_pwd'' mqtt_pwd_fielddef
     (PStr HIDDEN_PASSWORD) 0 initial_state = (Return image_mqtt_masked, initial_state)
   \<and> take 6 (drop 0x24E image_mqtt_secret) = map of_char ''secret''
   \<and> take 8 (drop 0x24E image_mqtt_masked) = map of_char ''********''"
proof -
  have "set_field (DEFAULTS\<lparr>jsonhidepw := True\<rparr>) image_mqtt_secret 1 ''mqtt_pwd'' mqtt_pwd_fielddef
          (PStr HIDDEN_PASSWORD) 0 initial_state =
        (Return (take (baseaddr mqtt_pwd_fielddef + 0) image_mqtt_secret @ [42, 42, 42, 42, 42, 42, 42, 42]
              @ replicate (33 - 8) 0 @ drop (baseaddr mqtt_pwd_fielddef + 0 + 33) image_mqtt_secret),
         initial_state)"
    by (rule set_field_hidden_password_written)
       (simp_all add: mqtt_pwd_fielddef_def Platform_ALL_def is_filtergroup_def DEFAULTS_def
          image_mqtt_secret_def)
  moreover have "take (baseaddr mqtt_pwd_fielddef + 0) image_mqtt_secret @ [42, 42, 42, 42, 42, 42, 42, 42]
              @ replicate (33 - 8) 0 @ drop (baseaddr mqtt_pwd_fielddef + 0 + 33) image_mqtt_secret
        = image_mqtt_masked"
    by (simp add: mqtt_pwd_fielddef_def image_mqtt_secret_def image_mqtt_masked_def)
  ultimately show ?thesis
    by (simp add: image_mqtt_secret_def image_mqtt_masked_def)
qed

section \<open>Array capacity\<close>






section \<open>Bit-field containment\<close>

lemma length_le_bytes [simp]: "length (le_bytes n v) = n"
  by (induction n arbitrary: v) auto

lemma le_int_le_bytes: "le_int (le_bytes n v) = take_bit (8 * n) v"
proof (induction n arbitrary: v)
  case 0
  then show ?case by simp
next
  case (Suc n)
  have "take_bit (8 * Suc n) v = take_bit 8 v + 256 * take_bit (8 * n) (v div 256)"
    using zmod_zmult2_eq [of "2 ^ (8 * n)" v 256] by (simp add: take_bit_eq_mod power_add)
  moreover have "uint (word_of_int v :: byte) = take_bit 8 v"
    by (simp add: uint_word_of_int_eq)
  ultimately show ?case using Suc by simp
qed

lemma bit_mask32: "bit (0xffffffff :: int) j \<longleftrightarrow> j < 32"
proof -
  have "(0xffffffff :: int) = mask 32" by (simp add: mask_eq_exp_minus_1)
  then show ?thesis by (simp only: bit_mask_iff) simp
qed

lemma bit_bounded:
  assumes "0 \<le> (bv::int)" "bv \<le> push_bit nb 1 - 1" "bit bv i"
  shows "i < nb"
proof -
  from assms have "bv < 2 ^ nb" by (simp add: push_bit_eq_mult)
  with assms have "take_bit nb bv = bv" by (simp add: take_bit_int_eq_self)
  with assms(3) show ?thesis by (metis bit_take_bit_iff)
qed

lemma push_bit_1_minus_1: "push_bit nb (1::int) - 1 = mask nb"
  by (simp add: mask_eq_exp_minus_1 push_bit_eq_mult)

lemma merge_bits_frame:
  assumes bv: "0 \<le> bv" "bv \<le> push_bit nb 1 - 1"
    and j: "j < 32" "\<not> (sh \<le> int j \<and> int j < sh + int nb)"
  shows "bit (merge_bits nb sh w bv) j = bit w j"
proof (cases "0 \<le> sh")
  case True
  have b: "\<not> bit (push_bit (nat sh) bv) j"
  proof
    assume "bit (push_bit (nat sh) bv) j"
    then have "nat sh \<le> j" "bit bv (j - nat sh)" by (auto simp: bit_push_bit_iff)
    with bit_bounded [OF bv] have "nat sh \<le> j" "j - nat sh < nb" by auto
    with True j(2) show False by linarith
  qed
  have m: "\<not> bit (push_bit (nat sh) (mask nb :: int)) j"
  proof
    assume "bit (push_bit (nat sh) (mask nb :: int)) j"
    then have "nat sh \<le> j" "j - nat sh < nb" by (auto simp: bit_push_bit_iff bit_mask_iff)
    with True j(2) show False by linarith
  qed
  from True b m j(1) show ?thesis
    unfolding merge_bits_def Let_def push_bit_1_minus_1
    by (simp add: bit_or_iff bit_and_iff bit_xor_iff bit_mask32)
next
  case False
  have b: "\<not> bit (drop_bit (nat \<bar>sh\<bar>) bv) j"
  proof
    assume "bit (drop_bit (nat \<bar>sh\<bar>) bv) j"
    then have "bit bv (nat \<bar>sh\<bar> + j)" by (simp add: bit_drop_bit_eq)
    with bit_bounded [OF bv] have "nat \<bar>sh\<bar> + j < nb" by auto
    with False j(2) show False by linarith
  qed
  have m: "\<not> bit (drop_bit (nat \<bar>sh\<bar>) (mask nb :: int)) j"
  proof
    assume "bit (drop_bit (nat \<bar>sh\<bar>) (mask nb :: int)) j"
    then have "nat \<bar>sh\<bar> + j < nb" by (simp add: bit_drop_bit_eq bit_mask_iff)
    with False j(2) show False by linarith
  qed
  from False b m j(1) show ?thesis
    unfolding merge_bits_def Let_def push_bit_1_minus_1
    by (simp add: bit_or_iff bit_and_iff bit_xor_iff bit_mask32)
qed

lemma merge_bits_nonneg:
  assumes "0 \<le> bv" shows "0 \<le> merge_bits nb sh w bv"
proof -
  have "(0::int) \<le> push_bit nb 1 - 1" by (simp add: push_bit_eq_mult)
  then have m: "0 \<le> (if 0 \<le> sh then push_bit (nat sh) (push_bit nb 1 - 1 :: int) else drop_bit (nat \<bar>sh\<bar>) (push_bit nb 1 - 1))"
    by simp
  then have "0 \<le> (0xffffffff::int) XOR (if 0 \<le> sh then push_bit (nat sh) (push_bit nb 1 - 1 :: int) else drop_bit (nat \<bar>sh\<bar>) (push_bit nb 1 - 1))"
    by simp
  then have "0 \<le> w AND ((0xffffffff::int) XOR (if 0 \<le> sh then push_bit (nat sh) (push_bit nb 1 - 1 :: int) else drop_bit (nat \<bar>sh\<bar>) (push_bit nb 1 - 1)))"
    by simp
  moreover have "0 \<le> (if 0 \<le> sh then push_bit (nat sh) bv else drop_bit (nat \<bar>sh\<bar>) bv)"
    using assms by simp
  ultimately show ?thesis
    by (simp add: merge_bits_def Let_def)
qed


lemma and_maxunsigned: "v AND (2 ^ m - 1) = take_bit m (v::int)"
  by (simp add: take_bit_eq_mask mask_eq_exp_minus_1)

lemma in_range_take_bit:
  "\<not> is_signed c \<Longrightarrow> in_range ord c (take_bit (8 * icode_size ord c) v)"
  by (simp add: in_range_def)

lemma set_fieldvalue_ints_one:
  assumes "0 \<le> v"
  shows "set_fieldvalue_ints ARGS ord c (Suc 0) dobj (addr + icode_size ord c) v s =
     (case pack_into_int ord c dobj addr (take_bit (8 * icode_size ord c) v) of
        Packed dobj1 \<Rightarrow> (Return dobj1, s)
      | Pack_error dobj1 \<Rightarrow>
          (case exit' RESTORE_DATA_ERROR WARNING (\<not> ignorewarning ARGS) s of
             (Return _, s1) \<Rightarrow> (Return dobj1, s1)
           | (SystemExit e, s1) \<Rightarrow> (SystemExit e, s1)
           | (Raise e, s1) \<Rightarrow> (Raise e, s1)))"
  using assms
  by (simp add: Let_def and_maxunsigned mult.commute split: packed.splits prod.splits outcome.splits)

lemma set_fieldvalue_scalar:
  assumes "format' fd = Struct (Scalar ord c)" "0 \<le> v"
  shows "set_fieldvalue ARGS fd dobj addr (PInt v) s =
     (case pack_into_int ord c dobj addr (take_bit (8 * icode_size ord c) v) of
        Packed dobj1 \<Rightarrow> (Return dobj1, s)
      | Pack_error dobj1 \<Rightarrow>
          (case exit' RESTORE_DATA_ERROR WARNING (\<not> ignorewarning ARGS) s of
             (Return _, s1) \<Rightarrow> (Return dobj1, s1)
           | (SystemExit e, s1) \<Rightarrow> (SystemExit e, s1)
           | (Raise e, s1) \<Rightarrow> (Raise e, s1)))"
  using assms set_fieldvalue_ints_one [of v ARGS ord c dobj addr s]
  by (simp add: set_fieldvalue_def)

text \<open>An unsigned code takes every value cut to its size: the call packs, or the buffer is
  too short and stays as it is.\<close>

lemma pack_into_int_unsigned:
  assumes "\<not> is_signed c"
  shows "(\<exists>d. pack_into_int ord c dobj addr (take_bit (8 * icode_size ord c) v) = Packed d)
       \<or> pack_into_int ord c dobj addr (take_bit (8 * icode_size ord c) v) = Pack_error dobj"
  using in_range_take_bit [OF assms, of ord v] by (simp add: pack_into_int_def)

lemma exit_Return: "exit' st ty de s = (Return u, s1) \<Longrightarrow> \<not> de"
  by (auto simp: exit'_def Let_def split: if_splits)

lemma set_field_store_cases:
  assumes fmt: "format' fd = Struct (Scalar ord c)" "\<not> is_signed c"
    and nn: "valid \<longrightarrow> 0 \<le> v"
    and res: "set_field_store ARGS dobj name fd ao (PInt v) valid False s = (Return dobj', s')"
  shows "dobj' = dobj
       \<or> (valid \<and> pack_into_int ord c dobj (baseaddr fd + ao) (take_bit (8 * icode_size ord c) v) = Packed dobj')"
proof (cases valid)
  case False
  with res show ?thesis
    by (auto simp: set_field_store_def split: prod.splits outcome.splits)
next
  case True
  with nn have v: "0 \<le> v" by simp
  show ?thesis
  proof (cases "strindex fd \<noteq> None")
    case True
    with res \<open>valid\<close> fmt show ?thesis
      by (auto simp: set_field_store_def split: prod.splits outcome.splits if_splits)
  next
    case False
    with res \<open>valid\<close> pack_into_int_unsigned [OF fmt(2), of ord dobj "baseaddr fd + ao" v]
    show ?thesis
      by (auto simp: set_field_store_def set_fieldvalue_scalar [OF fmt(1) v]
          split: prod.splits outcome.splits if_splits packed.splits)
  qed
qed

lemma set_field_integer_cases:
  assumes nb: "bits fd \<noteq> 0"
    and conv: "readwrite_converter ARGS rm fd False False s = (Return cv, s1)" "py_int ARGS cv = Return bv"
    and res: "set_field_integer ARGS dobj fd ord c (Suc 0) rm ao s = (Return (pv, valid, skip), s2)"
  shows "\<not> skip \<and> (\<exists>v. pv = PInt v \<and>
           (valid \<longrightarrow> bv \<le> push_bit (bits fd) 1 - 1
              \<and> unpack_from_int ord c dobj (baseaddr fd + ao) \<noteq> None
              \<and> v = merge_bits (bits fd) (bitshift fd)
                    (decode_int c (take (icode_size ord c) (drop (baseaddr fd + ao) dobj))) bv))"
  using res nb conv
  by (auto simp: set_field_integer_def Let_def merge_bits_def unpack_from_int_def
      split: option.splits list.splits if_splits)


lemma pack_into_int_frame:
  assumes "pack_into_int ord c dobj addr val = Packed dobj'"
  shows "length dobj' = length dobj"
    and "\<And>k. k < length dobj \<Longrightarrow> \<not> (addr \<le> k \<and> k < addr + icode_size ord c) \<Longrightarrow> dobj' ! k = dobj ! k"
    and "take (icode_size ord c) (drop addr dobj') = le_bytes (icode_size ord c) val"
    and "addr + icode_size ord c \<le> length dobj"
proof -
  from assms have fit: "addr + icode_size ord c \<le> length dobj"
    and eq: "dobj' = take addr dobj @ le_bytes (icode_size ord c) val @ drop (addr + icode_size ord c) dobj"
    by (auto simp: pack_into_int_def split: if_splits)
  show "addr + icode_size ord c \<le> length dobj" by (rule fit)
  from fit show "length dobj' = length dobj" by (simp add: eq)
  from fit show "take (icode_size ord c) (drop addr dobj') = le_bytes (icode_size ord c) val"
    by (simp add: eq)
  show "dobj' ! k = dobj ! k" if "k < length dobj" "\<not> (addr \<le> k \<and> k < addr + icode_size ord c)" for k
  proof (cases "k < addr")
    case True
    with fit show ?thesis by (simp add: eq nth_append)
  next
    case False
    with that have ge: "addr + icode_size ord c \<le> k" by simp
    have l: "length (take addr dobj @ le_bytes (icode_size ord c) val) = addr + icode_size ord c"
      using fit by simp
    have "dobj' ! k = ((take addr dobj @ le_bytes (icode_size ord c) val) @ drop (addr + icode_size ord c) dobj) ! k"
      by (simp add: eq)
    also have "\<dots> = drop (addr + icode_size ord c) dobj ! (k - (addr + icode_size ord c))"
      using ge l by (simp only: nth_append) simp
    also have "\<dots> = dobj ! k" using ge that(1) by simp
    finally show ?thesis .
  qed
qed

lemma bit_decode_int:
  assumes "j < 8 * length bs"
  shows "bit (decode_int c bs) j = bit (le_int bs) j"
proof -
  have "take_bit (8 * length bs) (le_int bs - 2 ^ (8 * length bs)) = take_bit (8 * length bs) (le_int bs)"
    by (simp add: take_bit_eq_mod)
  then have "bit (le_int bs - 2 ^ (8 * length bs)) j = bit (le_int bs) j"
    using assms by (metis bit_take_bit_iff)
  then show ?thesis by (simp add: decode_int_def Let_def)
qed

text \<open>
  What holds. Take a bit-packed field (\<open>bits \<noteq> 0\<close>) in an unsigned word of 8, 16 or 32
  bits, as all bit-packed fields of the settings tables are (their formats are \<open>'<L'\<close>,
  \<open>'<H'\<close> and \<open>'B'\<close>), and a new value that is not negative after conversion. Whenever
  \<open>set_field\<close> returns, the buffer has its old length, every byte outside the containing
  word is unchanged, and every bit of the containing word outside the range from
  \<open>bitshift\<close> up to, not including, \<open>bitshift + bits\<close> has its old value.
\<close>

lemma set_field_bits_frame:
  assumes fd: "arraydef fd = []" "format' fd = Struct (Scalar ord c)" "\<not> is_signed c"
      "icode_size ord c \<le> 4" "bits fd \<noteq> 0"
    and conv: "readwrite_converter ARGS restoremapping fd False False s = (Return converted, s1)"
      "py_int ARGS converted = Return bitvalue" "0 \<le> bitvalue"
    and res: "set_field ARGS dobj platform_bits fieldname fd restoremapping addroffset s = (Return dobj', s')"
  shows "length dobj' = length dobj
       \<and> (\<forall>k<length dobj.
             \<not> (baseaddr fd + addroffset \<le> k \<and> k < baseaddr fd + addroffset + icode_size ord c) \<longrightarrow>
             dobj' ! k = dobj ! k)
       \<and> (\<forall>j<8 * icode_size ord c.
             \<not> (bitshift fd \<le> int j \<and> int j < bitshift fd + int (bits fd)) \<longrightarrow>
             bit (le_int (take (icode_size ord c) (drop (baseaddr fd + addroffset) dobj'))) j
             = bit (le_int (take (icode_size ord c) (drop (baseaddr fd + addroffset) dobj))) j)"
proof (cases "dobj' = dobj")
  case True
  then show ?thesis by simp
next
  case False
  let ?addr = "baseaddr fd + addroffset"
  let ?n = "icode_size ord c"
  let ?old = "take ?n (drop ?addr dobj)"
  from res False fd(1,2)
  have simple: "set_field_simple ARGS dobj fieldname fd (Scalar ord c) restoremapping addroffset s = (Return dobj', s')"
    by (auto simp: set_field.simps split: if_splits)
  then obtain pv valid skip s2 where
    int: "set_field_integer ARGS dobj fd ord c (Suc 0) restoremapping addroffset s = (Return (pv, valid, skip), s2)"
    and store: "set_field_store ARGS dobj fieldname fd addroffset pv valid skip s2 = (Return dobj', s')"
    by (auto simp: set_field_simple_def split: prod.splits outcome.splits)
  from set_field_integer_cases [OF fd(5) conv(1,2) int]
  obtain v where v: "\<not> skip" "pv = PInt v"
    "valid \<longrightarrow> bitvalue \<le> push_bit (bits fd) 1 - 1
       \<and> unpack_from_int ord c dobj ?addr \<noteq> None
       \<and> v = merge_bits (bits fd) (bitshift fd) (decode_int c ?old) bitvalue"
    by blast
  have nn: "valid \<longrightarrow> 0 \<le> v" using v(3) merge_bits_nonneg [OF conv(3)] by simp
  from store v(1,2)
  have store': "set_field_store ARGS dobj fieldname fd addroffset (PInt v) valid False s2 = (Return dobj', s')"
    by simp
  from set_field_store_cases [OF fd(2,3) nn store'] False
  have valid: valid and pack: "pack_into_int ord c dobj ?addr (take_bit (8 * ?n) v) = Packed dobj'"
    by auto
  from v(3) valid have le: "bitvalue \<le> push_bit (bits fd) 1 - 1"
    and vm: "v = merge_bits (bits fd) (bitshift fd) (decode_int c ?old) bitvalue"
    by simp_all
  note fr = pack_into_int_frame [OF pack]
  have lold: "length ?old = ?n" using fr(4) by simp
  have "bit (le_int (take ?n (drop ?addr dobj'))) j = bit (le_int ?old) j"
    if j: "j < 8 * ?n" "\<not> (bitshift fd \<le> int j \<and> int j < bitshift fd + int (bits fd))" for j
  proof -
    from j(1) fd(4) have j32: "j < 32" by simp
    have "bit (le_int (take ?n (drop ?addr dobj'))) j = bit (take_bit (8 * ?n) (take_bit (8 * ?n) v)) j"
      by (simp only: fr(3) le_int_le_bytes)
    also have "\<dots> = bit v j" using j(1) by (simp add: bit_take_bit_iff)
    also have "\<dots> = bit (decode_int c ?old) j"
      unfolding vm by (rule merge_bits_frame [OF conv(3) le j32 j(2)])
    also have "\<dots> = bit (le_int ?old) j"
      using j(1) lold by (simp add: bit_decode_int)
    finally show ?thesis .
  qed
  with fr(1,2) show ?thesis by blast
qed

text \<open>
  So it is when the bit \<open>mqtt_enabled\<close> of an image whose word \<open>flag\<close> has all bits set
  is cleared: the bit 4 next to it stays set.
\<close>

lemma set_field_mqtt_enabled_zero:
  "set_field DEFAULTS image_flag_ones 1 ''mqtt_enabled'' mqtt_enabled_fielddef (PInt 0) 0 initial_state
     = (Return (replicate 16 0 @ [0xF7, 0xFF, 0xFF, 0xFF]), initial_state)"
  by code_simp

lemma set_field_bits_frame_example:
  "bit (le_int (take 4 (drop 16 (replicate 16 0 @ [0xF7, 0xFF, 0xFF, 0xFF])))) 4
     = bit (le_int (take 4 (drop 16 image_flag_ones))) 4"
proof -
  have h: "arraydef mqtt_enabled_fielddef = []"
    "format' mqtt_enabled_fielddef = Struct (Scalar LittleEndian FL)"
    "\<not> is_signed FL"
    "icode_size LittleEndian FL \<le> 4"
    "bits mqtt_enabled_fielddef \<noteq> 0"
    "readwrite_converter DEFAULTS (PInt 0) mqtt_enabled_fielddef False False initial_state
       = (Return (PInt 0), initial_state)"
    "py_int DEFAULTS (PInt 0) = Return 0"
    "(0::int) \<le> 0"
    by (simp_all add: mqtt_enabled_fielddef_def readwrite_converter_def)
  note fr = set_field_bits_frame [OF h set_field_mqtt_enabled_zero]
  have b: "baseaddr mqtt_enabled_fielddef = 16" "bitshift mqtt_enabled_fielddef = 3"
    by (simp_all add: mqtt_enabled_fielddef_def)
  have c: "4 < 8 * icode_size LittleEndian FL"
    "\<not> (bitshift mqtt_enabled_fielddef \<le> int 4
        \<and> int 4 < bitshift mqtt_enabled_fielddef + int (bits mqtt_enabled_fielddef))"
    by (simp_all add: mqtt_enabled_fielddef_def)
  from fr c have "bit (le_int (take (icode_size LittleEndian FL) (drop (baseaddr mqtt_enabled_fielddef + 0)
                    (replicate 16 0 @ [0xF7, 0xFF, 0xFF, 0xFF])))) 4
             = bit (le_int (take (icode_size LittleEndian FL)
                     (drop (baseaddr mqtt_enabled_fielddef + 0) image_flag_ones))) 4"
    by blast
  then show ?thesis
    by (simp only: b icode_size.simps add_0_right)
qed

text \<open>
  A signed word does not do: its value read as negative, merged with the 32-bit constant
  \<open>0xffffffff\<close>, is refused by \<open>struct.pack_into\<close>, which has set the word to zero by
  then; with warnings ignored \<open>set_field\<close> returns that buffer. No bit-packed field of
  the settings tables has a signed format.
\<close>

lemma set_field_signed_word_zeroed:
  "set_field (DEFAULTS\<lparr>ignorewarning := True\<rparr>) [0xFF, 0xAA] 1 ''flag''
     (FieldDef Platform_ALL (Struct (Scalar NoPrefix Fb)) 0 1 0 None [] None (Some ''SetOption'')
        ConvNone ConvNone)
     (PInt 0) 0 initial_state
   = (Return [0x00, 0xAA],
      \<lparr>stderr = [(Some WARNING, Some RESTORE_DATA_ERROR)], EXIT_CODE = RESTORE_DATA_ERROR\<rparr>)"
  by code_simp

text \<open>
  Claim C6 says that for every bit-packed field and every valid new value the write changes
  only the bits of the field, and that the sibling fields of the word keep their values.
  \<open>set_field\<close> tests the new value against the upper end of the field only
  (\<open>if bitvalue > mask\<close>), although the range it reports when that test fails is
  \<open>min_ = 0\<close>, \<open>max_ = mask\<close>. A negative value passes the test, and the validator too
  (the field has none). Restoring \<open>-4294967294\<close> into \<open>mqtt_enabled\<close>, the bit 3 of the
  word \<open>flag\<close>, on an image whose word \<open>flag\<close> is 5 returns without a message a buffer
  whose word \<open>flag\<close> is 21: the sibling \<open>mqtt_response\<close>, the bit 4 of that word, read 0
  before the write and reads 1 after it.
\<close>

theorem set_field_bits_negative_value_sets_sibling:
  "validate_value (PInt (- 4294967294)) mqtt_enabled_fielddef
   \<and> set_field DEFAULTS image_flag_five 1 ''mqtt_enabled'' mqtt_enabled_fielddef (PInt (- 4294967294)) 0
        initial_state = (Return image_flag_twentyone, initial_state)
   \<and> get_field DEFAULTS image_flag_five 1 mqtt_response_fielddef False 0 False initial_state
        = (Return (PInt 0), initial_state)
   \<and> get_field DEFAULTS image_flag_twentyone 1 mqtt_response_fielddef False 0 False initial_state
        = (Return (PInt 1), initial_state)"
  by code_simp

end
